theory Spec2Isabelle
  imports Main
begin

section \<open>Python values\<close>

text \<open>
  The repository handles parsed JSON: \<^verbatim>\<open>json.load\<close> yields \<^verbatim>\<open>None\<close>, booleans,
  integers, strings, lists and dicts. Tuples are kept because \<^verbatim>\<open>validate_json_schema\<close>
  names them. A dict is an association list in insertion order (a Python dict never
  holds two equal keys). Floating-point numbers are outside the model.
\<close>

datatype pyval =
    PNone
  | PBool bool
  | PInt int
  | PStr string
  | PList "pyval list"
  | PTuple "pyval list"
  | PDict "(pyval \<times> pyval) list"

datatype error =
    InvalidSchemaError
  | KeyError
  | TypeError
  | AttributeError
  | ValueError
  | IndexError
  | IOError
  | ParseError

text \<open>
  Modelled from the spec: \<^verbatim>\<open>string_types\<close> of \<^verbatim>\<open>lib.utils\<close> is not among the sources;
  the spec calls the declared type "string", and the code reads its \<^verbatim>\<open>__name__\<close>, so it
  is the one string type.
\<close>

fun is_string :: "pyval \<Rightarrow> bool" where
  "is_string (PStr s) = True"
| "is_string v = False"

text \<open>Truth value of an object, as \<^verbatim>\<open>and\<close>, \<^verbatim>\<open>or\<close> and \<^verbatim>\<open>if\<close> test it.\<close>

fun truthy :: "pyval \<Rightarrow> bool" where
  "truthy PNone = False"
| "truthy (PBool b) = b"
| "truthy (PInt n) = (n \<noteq> 0)"
| "truthy (PStr s) = (s \<noteq> [])"
| "truthy (PList xs) = (xs \<noteq> [])"
| "truthy (PTuple xs) = (xs \<noteq> [])"
| "truthy (PDict kvs) = (kvs \<noteq> [])"

text \<open>
  Hashing and key equality: lists and dicts cannot be keys; \<^verbatim>\<open>True == 1\<close> and
  \<^verbatim>\<open>False == 0\<close> collide as keys, also inside tuples.
\<close>

fun hashable :: "pyval \<Rightarrow> bool" where
  "hashable (PList xs) = False"
| "hashable (PDict kvs) = False"
| "hashable (PTuple xs) = list_all hashable xs"
| "hashable v = True"

fun key_norm :: "pyval \<Rightarrow> pyval" where
  "key_norm (PBool b) = PInt (if b then 1 else 0)"
| "key_norm (PTuple xs) = PTuple (map key_norm xs)"
| "key_norm v = v"

definition key_eq :: "pyval \<Rightarrow> pyval \<Rightarrow> bool" where
  "key_eq a b = (key_norm a = key_norm b)"

text \<open>\<^verbatim>\<open>d.get(key)\<close> and \<^verbatim>\<open>key in d\<close> for a string key: only an equal string matches.\<close>

definition dict_get :: "(pyval \<times> pyval) list \<Rightarrow> string \<Rightarrow> pyval option" where
  "dict_get kvs k = map_of kvs (PStr k)"

definition dict_get_default :: "(pyval \<times> pyval) list \<Rightarrow> string \<Rightarrow> pyval \<Rightarrow> pyval" where
  "dict_get_default kvs k d = (case dict_get kvs k of None \<Rightarrow> d | Some v \<Rightarrow> v)"

section \<open>Entry validation\<close>

datatype ftype = TString | TDict | TList

definition ENTRY_SCHEMA_required :: "string list" where
  "ENTRY_SCHEMA_required = [''id'', ''username'']"

definition ENTRY_SCHEMA_properties :: "(string \<times> ftype) list" where
  "ENTRY_SCHEMA_properties =
     [(''id'', TString), (''username'', TString), (''branch'', TString),
      (''assets'', TDict), (''asset_prefix'', TString), (''repository'', TString),
      (''platforms'', TList)]"

fun isinstance :: "pyval \<Rightarrow> ftype \<Rightarrow> bool" where
  "isinstance v TString = is_string v"
| "isinstance (PDict kvs) TDict = True"
| "isinstance v TDict = False"
| "isinstance (PList xs) TList = True"
| "isinstance v TList = False"

text \<open>\<^verbatim>\<open>ENTRY_SCHEMA["properties"][key]["type"]\<close>, or nothing when the key is not in the table.\<close>

fun schema_type :: "pyval \<Rightarrow> ftype option" where
  "schema_type (PStr k) = map_of ENTRY_SCHEMA_properties k"
| "schema_type v = None"

text \<open>The loop over \<^verbatim>\<open>value.items()\<close> of a dict-typed field.\<close>

fun validate_dict_items :: "(pyval \<times> pyval) list \<Rightarrow> error + unit" where
  "validate_dict_items [] = Inr ()"
| "validate_dict_items ((k, v) # kvs) =
     (if \<not> (is_string k \<and> is_string v) then Inl InvalidSchemaError
      else validate_dict_items kvs)"

text \<open>The loop over the elements of a list-typed field.\<close>

fun validate_list_items :: "pyval list \<Rightarrow> error + unit" where
  "validate_list_items [] = Inr ()"
| "validate_list_items (v # vs) =
     (if \<not> is_string v then Inl InvalidSchemaError else validate_list_items vs)"

text \<open>The body of the loop over \<^verbatim>\<open>entry.items()\<close>.\<close>

definition validate_item :: "pyval \<Rightarrow> pyval \<Rightarrow> error + unit" where
  "validate_item key val =
     (case schema_type key of
        None \<Rightarrow> Inl InvalidSchemaError
      | Some value_type \<Rightarrow>
          if \<not> isinstance val value_type then Inl InvalidSchemaError
          else (case (value_type, val) of
                  (TDict, PDict kvs) \<Rightarrow> validate_dict_items kvs
                | (TList, PList xs) \<Rightarrow> validate_list_items xs
                | _ \<Rightarrow> Inr ()))"

fun validate_items :: "(pyval \<times> pyval) list \<Rightarrow> error + unit" where
  "validate_items [] = Inr ()"
| "validate_items ((k, v) # kvs) =
     (case validate_item k v of
        Inl e \<Rightarrow> Inl e
      | Inr u \<Rightarrow> validate_items kvs)"

text \<open>The loop over \<^verbatim>\<open>ENTRY_SCHEMA["required"]\<close>.\<close>

fun validate_required :: "string list \<Rightarrow> (pyval \<times> pyval) list \<Rightarrow> error + unit" where
  "validate_required [] items = Inr ()"
| "validate_required (key # keys) items =
     (if dict_get items key = None then Inl InvalidSchemaError
      else validate_required keys items)"

fun validate_entry_schema :: "pyval \<Rightarrow> error + unit" where
  "validate_entry_schema (PDict items) =
     (case validate_required ENTRY_SCHEMA_required items of
        Inl e \<Rightarrow> Inl e
      | Inr u \<Rightarrow> validate_items items)"
| "validate_entry_schema v = Inl InvalidSchemaError"

fun validate_entries :: "pyval list \<Rightarrow> error + unit" where
  "validate_entries [] = Inr ()"
| "validate_entries (entry # es) =
     (case validate_entry_schema entry of
        Inl e \<Rightarrow> Inl e
      | Inr u \<Rightarrow> validate_entries es)"

fun validate_json_schema :: "pyval \<Rightarrow> error + unit" where
  "validate_json_schema (PList es) = validate_entries es"
| "validate_json_schema (PTuple es) = validate_entries es"
| "validate_json_schema v = Inl InvalidSchemaError"

text \<open>
  The contract of validation in the words of the specification: an entry is malformed
  when it is not a mapping, a required key is missing, a key outside the schema is
  present, a value's type differs from the declared one, a mapping field holds a
  non-string key or value, or a list field holds a non-string element.
\<close>

definition missing_required_key :: "(pyval \<times> pyval) list \<Rightarrow> bool" where
  "missing_required_key items =
     list_ex (\<lambda>k. PStr k \<notin> fst ` set items) ENTRY_SCHEMA_required"

definition has_unknown_key :: "(pyval \<times> pyval) list \<Rightarrow> bool" where
  "has_unknown_key items = list_ex (\<lambda>(k, v). schema_type k = None) items"

definition has_type_mismatch :: "(pyval \<times> pyval) list \<Rightarrow> bool" where
  "has_type_mismatch items =
     list_ex (\<lambda>(k, v). case schema_type k of None \<Rightarrow> False
                                | Some t \<Rightarrow> \<not> isinstance v t) items"

definition mapping_field_bad :: "(pyval \<times> pyval) list \<Rightarrow> bool" where
  "mapping_field_bad items =
     list_ex (\<lambda>(k, v). schema_type k = Some TDict \<and>
        (case v of
           PDict kvs \<Rightarrow> list_ex (\<lambda>(a, b). \<not> is_string a \<or> \<not> is_string b) kvs
         | _ \<Rightarrow> False)) items"

definition list_field_bad :: "(pyval \<times> pyval) list \<Rightarrow> bool" where
  "list_field_bad items =
     list_ex (\<lambda>(k, v). schema_type k = Some TList \<and>
        (case v of PList xs \<Rightarrow> list_ex (\<lambda>x. \<not> is_string x) xs | _ \<Rightarrow> False)) items"

definition entry_malformed :: "pyval \<Rightarrow> bool" where
  "entry_malformed e =
     (case e of
        PDict items \<Rightarrow>
          missing_required_key items \<or> has_unknown_key items \<or> has_type_mismatch items \<or>
          mapping_field_bad items \<or> list_field_bad items
      | _ \<Rightarrow> True)"

section \<open>Strings\<close>

fun startswith :: "string \<Rightarrow> string \<Rightarrow> bool" where
  "startswith s [] = True"
| "startswith [] (p # ps) = False"
| "startswith (c # cs) (p # ps) = (c = p \<and> startswith cs ps)"

definition endswith :: "string \<Rightarrow> string \<Rightarrow> bool" where
  "endswith s p = startswith (rev s) (rev p)"

text \<open>\<^verbatim>\<open>p in s\<close> for two strings: \<^verbatim>\<open>p\<close> occurs in \<^verbatim>\<open>s\<close> as a substring.\<close>

fun is_substring :: "string \<Rightarrow> string \<Rightarrow> bool" where
  "is_substring p [] = (p = [])"
| "is_substring p (c # cs) = (startswith (c # cs) p \<or> is_substring p cs)"

text \<open>The slice \<^verbatim>\<open>s[a:-b]\<close> for \<^verbatim>\<open>a \<ge> 0\<close> and \<^verbatim>\<open>b > 0\<close>.\<close>

definition slice_to_neg :: "string \<Rightarrow> nat \<Rightarrow> nat \<Rightarrow> string" where
  "slice_to_neg s a b = drop a (take (length s - b) s)"

section \<open>The environment and the state\<close>

datatype xml = Element string "(string \<times> string) list" string "xml list"

text \<open>\<^verbatim>\<open>ADDON = namedtuple("ADDON", "id username branch assets asset_prefix repository")\<close>.
  The fields are whatever the entry held: loading checks no types.\<close>

record addon =
  id' :: pyval
  username :: pyval
  branch :: pyval
  assets :: pyval
  asset_prefix :: pyval
  repository :: pyval

datatype log_record = LogDebug pyval string | LogError pyval error

text \<open>
  What the code reaches outside itself. Modelled from the spec: the platform provider
  (\<^verbatim>\<open>lib.platform.core\<close>) is not among the sources; it exposes a name, a system and an
  architecture, taken here as the text that \<^verbatim>\<open>format\<close> substitutes. The network
  (\<^verbatim>\<open>urlopen(url).read()\<close>), the file system, the JSON and XML parsers, the XML
  serialiser, \<^verbatim>\<open>urljoin\<close> on two non-empty strings (it may raise), \<^verbatim>\<open>str()\<close> of a
  non-string, and \<^verbatim>\<open>str.format\<close> from a replacement field on that uses a conversion, a
  format specification, an attribute, an index or a brace, are parameters: every
  theorem holds for each choice of them.
\<close>

record env =
  platform_name :: string
  platform_system :: string
  platform_arch :: string
  urlopen_read :: "string \<Rightarrow> error + string"
  read_file :: "string \<Rightarrow> error + string"
  json_loads :: "string \<Rightarrow> error + pyval"
  xml_fromstring :: "string \<Rightarrow> error + xml"
  xml_tostring :: "xml \<Rightarrow> string"
  urljoin_str :: "string \<Rightarrow> string \<Rightarrow> error + string"
  str_of :: "pyval \<Rightarrow> string"
  format_general :: "string \<Rightarrow> (string \<times> pyval) list \<Rightarrow> error + string"

text \<open>
  The attributes of a \<^verbatim>\<open>Repository\<close>, the two caches of the \<^verbatim>\<open>cached\<close> decorator, and
  what the code leaves in the world: the URLs it requested, oldest first, and the
  records it logged.
\<close>

record repo =
  files :: "string list"
  urls :: "string list"
  max_threads :: int
  addons :: "(pyval \<times> addon) list"
  latest_release_cache :: "((pyval \<times> pyval) \<times> (pyval \<times> nat)) list"
  addons_xml_cache :: "(string \<times> nat) option"
  requests :: "string list"
  log :: "log_record list"

definition get_request :: "env \<Rightarrow> string \<Rightarrow> repo \<Rightarrow> (error + string) \<times> repo" where
  "get_request env url s = (urlopen_read env url, s\<lparr>requests := requests s @ [url]\<rparr>)"

section \<open>The ordered store\<close>

text \<open>
  \<^verbatim>\<open>OrderedDict\<close>: \<^verbatim>\<open>d.get(k)\<close> and \<^verbatim>\<open>d[k] = v\<close>. Assigning to a key that is present
  replaces the value where it stands (and keeps the key object); a new key goes last.
\<close>

fun od_get :: "(pyval \<times> 'v) list \<Rightarrow> pyval \<Rightarrow> 'v option" where
  "od_get [] k = None"
| "od_get ((k', v') # kvs) k = (if key_eq k' k then Some v' else od_get kvs k)"

fun od_set :: "(pyval \<times> 'v) list \<Rightarrow> pyval \<Rightarrow> 'v \<Rightarrow> (pyval \<times> 'v) list" where
  "od_set [] k v = [(k, v)]"
| "od_set ((k', v') # kvs) k v =
     (if key_eq k' k then (k', v) # kvs else (k', v') # od_set kvs k v)"

section \<open>Loading entries\<close>

text \<open>\<^verbatim>\<open>obj[key]\<close> for a string key: only a dict can be indexed by a string.\<close>

fun py_getitem_str :: "pyval \<Rightarrow> string \<Rightarrow> error + pyval" where
  "py_getitem_str (PDict kvs) k =
     (case dict_get kvs k of None \<Rightarrow> Inl KeyError | Some v \<Rightarrow> Inr v)"
| "py_getitem_str v k = Inl TypeError"

text \<open>\<^verbatim>\<open>name in obj\<close> for a string \<^verbatim>\<open>name\<close>.\<close>

fun py_contains_str :: "pyval \<Rightarrow> string \<Rightarrow> error + bool" where
  "py_contains_str (PList xs) name = Inr (PStr name \<in> set xs)"
| "py_contains_str (PTuple xs) name = Inr (PStr name \<in> set xs)"
| "py_contains_str (PDict kvs) name = Inr (PStr name \<in> fst ` set kvs)"
| "py_contains_str (PStr s) name = Inr (is_substring name s)"
| "py_contains_str v name = Inl TypeError"

text \<open>\<^verbatim>\<open>platforms and platform_name not in platforms\<close>.\<close>

definition platform_excluded :: "pyval \<Rightarrow> string \<Rightarrow> error + bool" where
  "platform_excluded platforms name =
     (if truthy platforms
      then (case py_contains_str platforms name of Inl e \<Rightarrow> Inl e | Inr b \<Rightarrow> Inr (\<not> b))
      else Inr False)"

text \<open>The record that \<^verbatim>\<open>ADDON(...)\<close> builds from an entry's items.\<close>

definition make_addon :: "pyval \<Rightarrow> pyval \<Rightarrow> (pyval \<times> pyval) list \<Rightarrow> addon" where
  "make_addon addon_id uname items =
     \<lparr>id' = addon_id, username = uname,
      branch = dict_get_default items ''branch'' PNone,
      assets = dict_get_default items ''assets'' (PDict []),
      asset_prefix = dict_get_default items ''asset_prefix'' (PStr []),
      repository = dict_get_default items ''repository'' addon_id\<rparr>"

text \<open>The body of the loop of \<^verbatim>\<open>_load_data\<close>: one entry.\<close>

definition load_entry :: "env \<Rightarrow> pyval \<Rightarrow> repo \<Rightarrow> (error + unit) \<times> repo" where
  "load_entry env addon_data s =
     (case py_getitem_str addon_data ''id'' of
        Inl e \<Rightarrow> (Inl e, s)
      | Inr addon_id \<Rightarrow>
          (case addon_data of
             PDict items \<Rightarrow>
               (case platform_excluded (dict_get_default items ''platforms'' PNone)
                       (platform_name env) of
                  Inl e \<Rightarrow> (Inl e, s)
                | Inr True \<Rightarrow>
                    (Inr (), s\<lparr>log := log s @ [LogDebug addon_id (platform_name env)]\<rparr>)
                | Inr False \<Rightarrow>
                    (case py_getitem_str addon_data ''username'' of
                       Inl e \<Rightarrow> (Inl e, s)
                     | Inr uname \<Rightarrow>
                         if \<not> hashable addon_id then (Inl TypeError, s)
                         else (Inr (), s\<lparr>addons := od_set (addons s) addon_id
                                               (make_addon addon_id uname items)\<rparr>)))
           | _ \<Rightarrow> (Inl AttributeError, s)))"

text \<open>What \<^verbatim>\<open>for addon_data in data\<close> iterates over.\<close>

fun py_iter :: "pyval \<Rightarrow> error + pyval list" where
  "py_iter (PList xs) = Inr xs"
| "py_iter (PTuple xs) = Inr xs"
| "py_iter (PDict kvs) = Inr (map fst kvs)"
| "py_iter (PStr s) = Inr (map (\<lambda>c. PStr [c]) s)"
| "py_iter v = Inl TypeError"

fun load_entries :: "env \<Rightarrow> pyval list \<Rightarrow> repo \<Rightarrow> (error + unit) \<times> repo" where
  "load_entries env [] s = (Inr (), s)"
| "load_entries env (addon_data # rest) s =
     (case load_entry env addon_data s of
        (Inl e, s') \<Rightarrow> (Inl e, s')
      | (Inr u, s') \<Rightarrow> load_entries env rest s')"

definition load_data :: "env \<Rightarrow> pyval \<Rightarrow> repo \<Rightarrow> (error + unit) \<times> repo" where
  "load_data env data s =
     (case py_iter data of
        Inl e \<Rightarrow> (Inl e, s)
      | Inr entries \<Rightarrow> load_entries env entries s)"

definition load_url :: "env \<Rightarrow> string \<Rightarrow> repo \<Rightarrow> (error + unit) \<times> repo" where
  "load_url env url s =
     (case get_request env url s of
        (Inl e, s') \<Rightarrow> (Inl e, s')
      | (Inr body, s') \<Rightarrow>
          (case json_loads env body of
             Inl e \<Rightarrow> (Inl e, s')
           | Inr data \<Rightarrow> load_data env data s'))"

definition load_file :: "env \<Rightarrow> string \<Rightarrow> repo \<Rightarrow> (error + unit) \<times> repo" where
  "load_file env path s =
     (case read_file env path of
        Inl e \<Rightarrow> (Inl e, s)
      | Inr body \<Rightarrow>
          (case json_loads env body of
             Inl e \<Rightarrow> (Inl e, s)
           | Inr data \<Rightarrow> load_data env data s))"

fun load_each ::
  "(string \<Rightarrow> repo \<Rightarrow> (error + unit) \<times> repo) \<Rightarrow> string list \<Rightarrow> repo \<Rightarrow> (error + unit) \<times> repo"
where
  "load_each load [] s = (Inr (), s)"
| "load_each load (x # xs) s =
     (case load x s of
        (Inl e, s') \<Rightarrow> (Inl e, s')
      | (Inr u, s') \<Rightarrow> load_each load xs s')"

definition update :: "env \<Rightarrow> bool \<Rightarrow> repo \<Rightarrow> (error + unit) \<times> repo" where
  "update env clear s =
     (let s0 = (if clear then s\<lparr>addons := []\<rparr> else s) in
      case load_each (load_url env) (urls s0) s0 of
        (Inl e, s1) \<Rightarrow> (Inl e, s1)
      | (Inr u, s1) \<Rightarrow> load_each (load_file env) (files s1) s1)"

text \<open>\<^verbatim>\<open>Repository.__init__\<close>: an empty store, then \<^verbatim>\<open>update()\<close>.\<close>

definition init :: "env \<Rightarrow> string list \<Rightarrow> string list \<Rightarrow> int \<Rightarrow> (error + unit) \<times> repo" where
  "init env fs us n =
     update env False
       \<lparr>files = fs, urls = us, max_threads = n, addons = [], latest_release_cache = [],
        addons_xml_cache = None, requests = [], log = []\<rparr>"

section \<open>String formatting\<close>

definition GITHUB_CONTENT_BASE_URL :: string where
  "GITHUB_CONTENT_BASE_URL = ''https://raw.githubusercontent.com/{username}/{repository}/{branch}/''"

definition GITHUB_RELEASES_URL :: string where
  "GITHUB_RELEASES_URL = ''https://api.github.com/repos/{username}/{repository}/releases''"

definition GITHUB_LATEST_RELEASE_URL :: string where
  "GITHUB_LATEST_RELEASE_URL = GITHUB_RELEASES_URL @ ''/latest''"

definition GITHUB_ZIP_URL :: string where
  "GITHUB_ZIP_URL = ''https://github.com/{username}/{repository}/archive/{branch}.zip''"

definition ADDON_EXTENSION :: string where
  "ADDON_EXTENSION = ''.zip''"

definition VERSION_SEPARATOR :: string where
  "VERSION_SEPARATOR = ''-''"

text \<open>What \<^verbatim>\<open>format\<close> substitutes for a value: a string as it is, anything else through
  \<^verbatim>\<open>str()\<close>.\<close>

definition format_value :: "env \<Rightarrow> pyval \<Rightarrow> string" where
  "format_value env v = (case v of PStr s \<Rightarrow> s | _ \<Rightarrow> str_of env v)"

text \<open>
  A replacement field \<^verbatim>\<open>{name}\<close> of \<^verbatim>\<open>template.format(**formats)\<close> whose name is plain
  text. An empty or numeric name asks for a positional argument, and there is none: an
  \<^verbatim>\<open>IndexError\<close>, or a \<^verbatim>\<open>ValueError\<close> when the number exceeds the largest index
  (\<^verbatim>\<open>sys.maxsize\<close>, here of a 64-bit platform). Any other name is a key of \<^verbatim>\<open>formats\<close>.
\<close>

definition digits_value :: "string \<Rightarrow> nat" where
  "digits_value name = fold (\<lambda>c n. 10 * n + (of_char c - 48)) name 0"

definition format_field :: "env \<Rightarrow> (string \<times> pyval) list \<Rightarrow> string \<Rightarrow> error + string" where
  "format_field env formats name =
     (if list_all (\<lambda>c. c \<in> set ''0123456789'') name
      then (if digits_value name > 9223372036854775807 then Inl ValueError
            else Inl IndexError)
      else (case map_of formats name of
              None \<Rightarrow> Inl KeyError
            | Some v \<Rightarrow> Inr (format_value env v)))"

definition prepend :: "string \<Rightarrow> error + string \<Rightarrow> error + string" where
  "prepend x r = (case r of Inl e \<Rightarrow> Inl e | Inr y \<Rightarrow> Inr (x @ y))"

text \<open>
  \<^verbatim>\<open>str.format\<close>, one pass from left to right. The second argument is the name of the
  replacement field being read, if any. \<^verbatim>\<open>{{\<close> and \<^verbatim>\<open>}}\<close> are the escaped braces; a lone
  brace is a \<^verbatim>\<open>ValueError\<close>. Substituted text is not scanned again. A field ends at
  its first \<^verbatim>\<open>}\<close>, unless one of \<^verbatim>\<open>!\<close>, \<^verbatim>\<open>:\<close>, \<^verbatim>\<open>.\<close>, \<^verbatim>\<open>[\<close>, \<^verbatim>\<open>{\<close> comes before: from such a
  field on, the rest of the template is left to the library (\<^const>\<open>format_general\<close>,
  on the text from the opening brace of that field).
\<close>

fun format_scan ::
  "env \<Rightarrow> (string \<times> pyval) list \<Rightarrow> string option \<Rightarrow> string \<Rightarrow> error + string"
where
  "format_scan env formats None [] = Inr []"
| "format_scan env formats (Some name) [] = Inl ValueError"
| "format_scan env formats None [c] =
     (if c = CHR ''{'' \<or> c = CHR ''}'' then Inl ValueError else Inr [c])"
| "format_scan env formats None (c # c' # cs) =
     (if c = CHR ''{'' then
        (if c' = CHR ''{'' then prepend ''{'' (format_scan env formats None cs)
         else format_scan env formats (Some []) (c' # cs))
      else if c = CHR ''}'' then
        (if c' = CHR ''}'' then prepend ''}'' (format_scan env formats None cs)
         else Inl ValueError)
      else prepend [c] (format_scan env formats None (c' # cs)))"
| "format_scan env formats (Some name) (c # cs) =
     (if c = CHR ''}'' then
        (case format_field env formats name of
           Inl e \<Rightarrow> Inl e
         | Inr v \<Rightarrow> prepend v (format_scan env formats None cs))
      else if c \<in> set ''!:.[{'' then
        format_general env (CHR ''{'' # name @ c # cs) formats
      else format_scan env formats (Some (name @ [c])) cs)"

definition py_format :: "env \<Rightarrow> string \<Rightarrow> (string \<times> pyval) list \<Rightarrow> error + string" where
  "py_format env template formats = format_scan env formats None template"

text \<open>
  \<^verbatim>\<open>urljoin(base, url)\<close> for a string \<^verbatim>\<open>base\<close>: a false \<^verbatim>\<open>url\<close> gives the base back, a
  non-string one is a \<^verbatim>\<open>TypeError\<close>, and two strings are joined by the library, which
  raises on some of them.
\<close>

definition urljoin :: "env \<Rightarrow> string \<Rightarrow> pyval \<Rightarrow> error + string" where
  "urljoin env base url =
     (if \<not> truthy url then Inr base
      else (case url of PStr u \<Rightarrow> urljoin_str env base u | _ \<Rightarrow> Inl TypeError))"

section \<open>The cache\<close>

text \<open>
  Modelled from the spec: the decorator \<^verbatim>\<open>cached\<close> of \<^verbatim>\<open>lib.cache\<close> is not among the
  sources. A cache entry is a value and its expiry; a call returns the value while the
  entry has not expired, and otherwise runs the operation and stores its result with
  \<^verbatim>\<open>now + ttl\<close>; a call that raises stores nothing. The key is the argument tuple. The
  clock reading \<^verbatim>\<open>now\<close> is an argument of every operation that may use a cache.
\<close>

definition cache_ttl :: nat where
  "cache_ttl = 60 * 60"

definition cache_lookup :: "nat \<Rightarrow> ('k \<times> ('v \<times> nat)) list \<Rightarrow> 'k \<Rightarrow> 'v option" where
  "cache_lookup now cache k =
     (case map_of cache k of
        None \<Rightarrow> None
      | Some (v, expiry) \<Rightarrow> if now < expiry then Some v else None)"

definition cache_store ::
  "nat \<Rightarrow> ('k \<times> ('v \<times> nat)) list \<Rightarrow> 'k \<Rightarrow> 'v \<Rightarrow> ('k \<times> ('v \<times> nat)) list" where
  "cache_store now cache k v = (k, (v, now + cache_ttl)) # filter (\<lambda>kv. fst kv \<noteq> k) cache"

definition clear_cache :: "repo \<Rightarrow> repo" where
  "clear_cache s = s\<lparr>addons_xml_cache := None, latest_release_cache := []\<rparr>"

section \<open>Branch resolution\<close>

text \<open>The body of \<^verbatim>\<open>get_latest_release\<close>, under the decorator.\<close>

definition latest_release_body ::
  "env \<Rightarrow> pyval \<Rightarrow> pyval \<Rightarrow> pyval \<Rightarrow> repo \<Rightarrow> (error + pyval) \<times> repo" where
  "latest_release_body env uname repo_name dflt s =
     (case py_format env GITHUB_LATEST_RELEASE_URL
             [(''username'', uname), (''repository'', repo_name)] of
        Inl e \<Rightarrow> (Inl e, s)
      | Inr url \<Rightarrow>
          (case get_request env url s of
             (Inl e, s') \<Rightarrow> (Inl e, s')
           | (Inr body, s') \<Rightarrow>
               (case json_loads env body of
                  Inl e \<Rightarrow> (Inl e, s')
                | Inr (PDict kvs) \<Rightarrow> (Inr (dict_get_default kvs ''tag_name'' dflt), s')
                | Inr v \<Rightarrow> (Inl AttributeError, s'))))"

text \<open>\<^verbatim>\<open>get_latest_release(username, repository)\<close> as callers see it: cached for an hour,
  with the default \<^verbatim>\<open>"master"\<close>.\<close>

definition get_latest_release ::
  "env \<Rightarrow> nat \<Rightarrow> pyval \<Rightarrow> pyval \<Rightarrow> repo \<Rightarrow> (error + pyval) \<times> repo" where
  "get_latest_release env now uname repo_name s =
     (case cache_lookup now (latest_release_cache s) (uname, repo_name) of
        Some v \<Rightarrow> (Inr v, s)
      | None \<Rightarrow>
          (case latest_release_body env uname repo_name (PStr ''master'') s of
             (Inl e, s') \<Rightarrow> (Inl e, s')
           | (Inr v, s') \<Rightarrow>
               (Inr v, s'\<lparr>latest_release_cache :=
                          cache_store now (latest_release_cache s') (uname, repo_name) v\<rparr>)))"

text \<open>\<^verbatim>\<open>addon.branch or self.get_latest_release(addon.username, addon.repository)\<close>.\<close>

definition get_addon_branch :: "env \<Rightarrow> nat \<Rightarrow> addon \<Rightarrow> repo \<Rightarrow> (error + pyval) \<times> repo" where
  "get_addon_branch env now a s =
     (if truthy (branch a) then (Inr (branch a), s)
      else get_latest_release env now (username a) (repository a) s)"

section \<open>Fetching and merging the add-on documents\<close>

text \<open>
  \<^verbatim>\<open>_get_addon_xml\<close>, first the statement before the \<^verbatim>\<open>try\<close>: the URL of the add-on's
  document. The asset lookup, the join, the branch resolution and the formatting raise
  to the caller.
\<close>

definition addon_xml_url :: "env \<Rightarrow> nat \<Rightarrow> addon \<Rightarrow> repo \<Rightarrow> (error + string) \<times> repo" where
  "addon_xml_url env now a s =
     (case assets a of
        PDict kvs \<Rightarrow>
          (case urljoin env GITHUB_CONTENT_BASE_URL
                  (dict_get_default kvs ''addon.xml'' (PStr ''addon.xml'')) of
             Inl e \<Rightarrow> (Inl e, s)
           | Inr template \<Rightarrow>
               (case get_addon_branch env now a s of
                  (Inl e, s1) \<Rightarrow> (Inl e, s1)
                | (Inr b, s1) \<Rightarrow>
                    (py_format env template
                       [(''id'', id' a), (''username'', username a),
                        (''repository'', repository a), (''branch'', b)], s1)))
      | _ \<Rightarrow> (Inl AttributeError, s))"

text \<open>
  The \<^verbatim>\<open>try\<close> block: a request or a parse that raises is logged with the add-on's id
  and the cause, and the result is \<^verbatim>\<open>None\<close>.
\<close>

definition fetch_document :: "env \<Rightarrow> addon \<Rightarrow> string \<Rightarrow> repo \<Rightarrow> xml option \<times> repo" where
  "fetch_document env a url s =
     (case get_request env url s of
        (Inl e, s') \<Rightarrow> (None, s'\<lparr>log := log s' @ [LogError (id' a) e]\<rparr>)
      | (Inr body, s') \<Rightarrow>
          (case xml_fromstring env body of
             Inl e \<Rightarrow> (None, s'\<lparr>log := log s' @ [LogError (id' a) e]\<rparr>)
           | Inr x \<Rightarrow> (Some x, s')))"

definition get_addon_xml :: "env \<Rightarrow> nat \<Rightarrow> addon \<Rightarrow> repo \<Rightarrow> (error + xml option) \<times> repo" where
  "get_addon_xml env now a s =
     (case addon_xml_url env now a s of
        (Inl e, s1) \<Rightarrow> (Inl e, s1)
      | (Inr url, s1) \<Rightarrow>
          (case fetch_document env a url s1 of
             (r, s2) \<Rightarrow> (Inr r, s2)))"

text \<open>
  The sequential branch, \<^verbatim>\<open>map(self._get_addon_xml, self._addons.values())\<close>: the first
  call that raises ends the iteration.
\<close>

fun fetch_sequential ::
  "env \<Rightarrow> nat \<Rightarrow> addon list \<Rightarrow> repo \<Rightarrow> (error + xml option list) \<times> repo" where
  "fetch_sequential env now [] s = (Inr [], s)"
| "fetch_sequential env now (a # rest) s =
     (case get_addon_xml env now a s of
        (Inl e, s1) \<Rightarrow> (Inl e, s1)
      | (Inr r, s1) \<Rightarrow>
          (case fetch_sequential env now rest s1 of
             (Inl e, s2) \<Rightarrow> (Inl e, s2)
           | (Inr rs, s2) \<Rightarrow> (Inr (r # rs), s2)))"

text \<open>
  The thread pool: one task per add-on, all of them run, and the results are read in
  the order of submission, where the first task that raised raises again. The tasks
  are taken here in the order of submission; their interleaving is not modelled.
\<close>

fun fetch_pool ::
  "env \<Rightarrow> nat \<Rightarrow> addon list \<Rightarrow> repo \<Rightarrow> (error + xml option list) \<times> repo" where
  "fetch_pool env now [] s = (Inr [], s)"
| "fetch_pool env now (a # rest) s =
     (case get_addon_xml env now a s of
        (r, s1) \<Rightarrow>
          (case fetch_pool env now rest s1 of
             (rs, s2) \<Rightarrow>
               (case r of
                  Inl e \<Rightarrow> (Inl e, s2)
                | Inr x \<Rightarrow>
                    (case rs of
                       Inl e \<Rightarrow> (Inl e, s2)
                     | Inr xs \<Rightarrow> (Inr (x # xs), s2)))))"

text \<open>\<^verbatim>\<open>root.append(result)\<close> for every result that is not \<^verbatim>\<open>None\<close>.\<close>

fun append_results :: "xml \<Rightarrow> xml option list \<Rightarrow> xml" where
  "append_results root [] = root"
| "append_results (Element tag attrib txt children) (None # rs) =
     append_results (Element tag attrib txt children) rs"
| "append_results (Element tag attrib txt children) (Some x # rs) =
     append_results (Element tag attrib txt (children @ [x])) rs"

text \<open>The element that \<^verbatim>\<open>get_addons_xml\<close> builds, before it is serialised.\<close>

definition addons_root :: "env \<Rightarrow> nat \<Rightarrow> repo \<Rightarrow> (error + xml) \<times> repo" where
  "addons_root env now s =
     (let num_threads = min (max_threads s) (int (length (addons s)));
          fetched = (if num_threads \<le> 1
                     then fetch_sequential env now (map snd (addons s)) s
                     else fetch_pool env now (map snd (addons s)) s)
      in case fetched of
           (Inl e, s') \<Rightarrow> (Inl e, s')
         | (Inr results, s') \<Rightarrow>
             (Inr (append_results (Element ''addons'' [] [] []) results), s'))"

definition addons_xml_body :: "env \<Rightarrow> nat \<Rightarrow> repo \<Rightarrow> (error + string) \<times> repo" where
  "addons_xml_body env now s =
     (case addons_root env now s of
        (Inl e, s') \<Rightarrow> (Inl e, s')
      | (Inr root, s') \<Rightarrow> (Inr (xml_tostring env root), s'))"

text \<open>\<^verbatim>\<open>get_addons_xml()\<close> as callers see it: cached for an hour.\<close>

definition get_addons_xml :: "env \<Rightarrow> nat \<Rightarrow> repo \<Rightarrow> (error + string) \<times> repo" where
  "get_addons_xml env now s =
     (case (case addons_xml_cache s of
              None \<Rightarrow> None
            | Some (v, expiry) \<Rightarrow> if now < expiry then Some v else None) of
        Some v \<Rightarrow> (Inr v, s)
      | None \<Rightarrow>
          (case addons_xml_body env now s of
             (Inl e, s') \<Rightarrow> (Inl e, s')
           | (Inr v, s') \<Rightarrow> (Inr v, s'\<lparr>addons_xml_cache := Some (v, now + cache_ttl)\<rparr>)))"

section \<open>Asset URLs\<close>

text \<open>The test and the slice of \<^verbatim>\<open>get_asset_url\<close> for a versioned archive name.\<close>

definition is_versioned_archive :: "string \<Rightarrow> string \<Rightarrow> bool" where
  "is_versioned_archive addon_id asset =
     (startswith asset (addon_id @ VERSION_SEPARATOR) \<and> endswith asset ADDON_EXTENSION)"

definition archive_version :: "string \<Rightarrow> string \<Rightarrow> string" where
  "archive_version addon_id asset =
     slice_to_neg asset (length addon_id + length VERSION_SEPARATOR) (length ADDON_EXTENSION)"

text \<open>
  The three things the branch on the asset name sets: the formats, the key looked up
  among the overrides, and the default URL template. The default of the other branch
  concatenates strings, a \<^verbatim>\<open>TypeError\<close> when the prefix is not one.
\<close>

definition asset_target ::
  "(string \<times> pyval) list \<Rightarrow> addon \<Rightarrow> string \<Rightarrow> string \<Rightarrow>
   error + ((string \<times> pyval) list \<times> string \<times> string)" where
  "asset_target formats a addon_id asset =
     (if is_versioned_archive addon_id asset
      then Inr (formats @ [(''version'', PStr (archive_version addon_id asset))],
                ''zip'', GITHUB_ZIP_URL)
      else (case asset_prefix a of
              PStr p \<Rightarrow> Inr (formats, asset, GITHUB_CONTENT_BASE_URL @ p @ asset)
            | _ \<Rightarrow> Inl TypeError))"

text \<open>\<^verbatim>\<open>urljoin(GITHUB_CONTENT_BASE_URL, addon.assets[asset])\<close>, or the default on a
  \<^verbatim>\<open>KeyError\<close>.\<close>

definition asset_template :: "env \<Rightarrow> addon \<Rightarrow> string \<Rightarrow> string \<Rightarrow> error + string" where
  "asset_template env a key default_asset_url =
     (case py_getitem_str (assets a) key of
        Inl KeyError \<Rightarrow> Inr default_asset_url
      | Inl e \<Rightarrow> Inl e
      | Inr v \<Rightarrow> urljoin env GITHUB_CONTENT_BASE_URL v)"

definition get_asset_url ::
  "env \<Rightarrow> nat \<Rightarrow> string \<Rightarrow> string \<Rightarrow> repo \<Rightarrow> (error + string option) \<times> repo" where
  "get_asset_url env now addon_id asset s =
     (case od_get (addons s) (PStr addon_id) of
        None \<Rightarrow> (Inr None, s)
      | Some a \<Rightarrow>
          (case get_addon_branch env now a s of
             (Inl e, s') \<Rightarrow> (Inl e, s')
           | (Inr b, s') \<Rightarrow>
               (case asset_target
                       [(''id'', id' a), (''username'', username a),
                        (''repository'', repository a), (''branch'', b),
                        (''system'', PStr (platform_system env)),
                        (''arch'', PStr (platform_arch env))] a addon_id asset of
                  Inl e \<Rightarrow> (Inl e, s')
                | Inr (formats, key, default_asset_url) \<Rightarrow>
                    (case asset_template env a key default_asset_url of
                       Inl e \<Rightarrow> (Inl e, s')
                     | Inr asset_url \<Rightarrow>
                         (case py_format env asset_url formats of
                            Inl e \<Rightarrow> (Inl e, s')
                          | Inr url \<Rightarrow> (Inr (Some url), s'))))))"

section \<open>Load: the words of the specification\<close>

text \<open>
  "The entry declares a non-empty platform whitelist that does not contain the current
  platform name."
\<close>

definition whitelist_excludes :: "(pyval \<times> pyval) list \<Rightarrow> string \<Rightarrow> bool" where
  "whitelist_excludes items name =
     (case dict_get items ''platforms'' of
        Some (PList ps) \<Rightarrow> ps \<noteq> [] \<and> PStr name \<notin> set ps
      | _ \<Rightarrow> False)"

text \<open>"At most one record per add-on id": no two keys of the store are equal as keys.\<close>

definition one_record_per_id :: "(pyval \<times> addon) list \<Rightarrow> bool" where
  "one_record_per_id store = distinct (map (\<lambda>kv. key_norm (fst kv)) store)"

text \<open>The records the store holds for an id.\<close>

definition records_for :: "(pyval \<times> addon) list \<Rightarrow> pyval \<Rightarrow> addon list" where
  "records_for store k = map snd (filter (\<lambda>kv. key_eq (fst kv) k) store)"

section \<open>Aggregation: what each add-on contributes\<close>

text \<open>
  The outcome of one add-on's task, as a function of the environment, the clock and the
  release cache at the start of the aggregation: the release that the endpoint gives,
  the branch, the URL of the document, and the document or the failure of its fetch.
  They are the vocabulary of the statements about \<^verbatim>\<open>get_addons_xml\<close>, not code.
\<close>

definition release_lookup :: "env \<Rightarrow> pyval \<Rightarrow> pyval \<Rightarrow> error + pyval" where
  "release_lookup env uname repo_name =
     (case urlopen_read env
             (''https://api.github.com/repos/'' @ format_value env uname @ ''/'' @
              format_value env repo_name @ ''/releases/latest'') of
        Inl e \<Rightarrow> Inl e
      | Inr body \<Rightarrow>
          (case json_loads env body of
             Inl e \<Rightarrow> Inl e
           | Inr (PDict kvs) \<Rightarrow> Inr (dict_get_default kvs ''tag_name'' (PStr ''master''))
           | Inr v \<Rightarrow> Inl AttributeError))"

definition cached_release ::
  "env \<Rightarrow> nat \<Rightarrow> ((pyval \<times> pyval) \<times> (pyval \<times> nat)) list \<Rightarrow> pyval \<Rightarrow> pyval \<Rightarrow> error + pyval"
where
  "cached_release env now cache uname repo_name =
     (case cache_lookup now cache (uname, repo_name) of
        Some v \<Rightarrow> Inr v
      | None \<Rightarrow> release_lookup env uname repo_name)"

definition resolved_branch ::
  "env \<Rightarrow> nat \<Rightarrow> ((pyval \<times> pyval) \<times> (pyval \<times> nat)) list \<Rightarrow> addon \<Rightarrow> error + pyval" where
  "resolved_branch env now cache a =
     (if truthy (branch a) then Inr (branch a)
      else cached_release env now cache (username a) (repository a))"

definition document_url ::
  "env \<Rightarrow> nat \<Rightarrow> ((pyval \<times> pyval) \<times> (pyval \<times> nat)) list \<Rightarrow> addon \<Rightarrow> error + string" where
  "document_url env now cache a =
     (case assets a of
        PDict kvs \<Rightarrow>
          (case urljoin env GITHUB_CONTENT_BASE_URL
                  (dict_get_default kvs ''addon.xml'' (PStr ''addon.xml'')) of
             Inl e \<Rightarrow> Inl e
           | Inr template \<Rightarrow>
               (case resolved_branch env now cache a of
                  Inl e \<Rightarrow> Inl e
                | Inr b \<Rightarrow>
                    py_format env template
                      [(''id'', id' a), (''username'', username a),
                       (''repository'', repository a), (''branch'', b)]))
      | _ \<Rightarrow> Inl AttributeError)"

text \<open>The fetch of one document: the request, then the parse.\<close>

definition document :: "env \<Rightarrow> string \<Rightarrow> error + xml" where
  "document env url =
     (case urlopen_read env url of
        Inl e \<Rightarrow> Inl e
      | Inr body \<Rightarrow> xml_fromstring env body)"

definition addon_document ::
  "env \<Rightarrow> nat \<Rightarrow> ((pyval \<times> pyval) \<times> (pyval \<times> nat)) list \<Rightarrow> addon \<Rightarrow> error + xml" where
  "addon_document env now cache a =
     (case document_url env now cache a of
        Inl e \<Rightarrow> Inl e
      | Inr url \<Rightarrow> document env url)"

text \<open>Every add-on's URL can be built: no task raises before its \<^verbatim>\<open>try\<close>.\<close>

definition urls_built :: "env \<Rightarrow> nat \<Rightarrow> repo \<Rightarrow> bool" where
  "urls_built env now s =
     list_all (\<lambda>a. case document_url env now (latest_release_cache s) a of
                     Inl e \<Rightarrow> False | Inr url \<Rightarrow> True)
       (map snd (addons s))"

text \<open>The fragments of the add-ons whose fetch succeeds, in the order of the store.\<close>

definition fetched_documents :: "env \<Rightarrow> nat \<Rightarrow> repo \<Rightarrow> xml list" where
  "fetched_documents env now s =
     concat (map (\<lambda>a. case addon_document env now (latest_release_cache s) a of
                        Inl e \<Rightarrow> [] | Inr x \<Rightarrow> [x])
               (map snd (addons s)))"

text \<open>The add-ons whose fetch fails, each with the cause, in the order of the store.\<close>

definition failed_fetches :: "env \<Rightarrow> nat \<Rightarrow> repo \<Rightarrow> (addon \<times> error) list" where
  "failed_fetches env now s =
     concat (map (\<lambda>a. case addon_document env now (latest_release_cache s) a of
                        Inl e \<Rightarrow> [(a, e)] | Inr x \<Rightarrow> [])
               (map snd (addons s)))"

text \<open>Proof device: two caches that resolve every release alike.\<close>

definition cache_agrees ::
  "env \<Rightarrow> nat \<Rightarrow> ((pyval \<times> pyval) \<times> (pyval \<times> nat)) list \<Rightarrow>
   ((pyval \<times> pyval) \<times> (pyval \<times> nat)) list \<Rightarrow> bool" where
  "cache_agrees env now c c' =
     (\<forall>u r. cached_release env now c' u r = cached_release env now c u r)"

text \<open>Proof devices: the results of the tasks and the records they log.\<close>

definition results_of ::
  "env \<Rightarrow> nat \<Rightarrow> ((pyval \<times> pyval) \<times> (pyval \<times> nat)) list \<Rightarrow> addon list \<Rightarrow> xml option list"
where
  "results_of env now c0 as =
     map (\<lambda>a. case addon_document env now c0 a of Inl e \<Rightarrow> None | Inr x \<Rightarrow> Some x) as"

definition failures_of ::
  "env \<Rightarrow> nat \<Rightarrow> ((pyval \<times> pyval) \<times> (pyval \<times> nat)) list \<Rightarrow> addon list \<Rightarrow> log_record list"
where
  "failures_of env now c0 as =
     concat (map (\<lambda>a. case addon_document env now c0 a of
                        Inl e \<Rightarrow> [LogError (id' a) e] | Inr x \<Rightarrow> []) as)"

section \<open>A concrete environment and concrete entries\<close>

text \<open>
  A platform named \<^verbatim>\<open>linux_x64\<close>; a network on which the document of \<^verbatim>\<open>plugin.a\<close> and
  the latest release of \<^verbatim>\<open>plugin.c\<close> can be fetched and every other request fails.
\<close>

definition example_env :: env where
  "example_env =
     \<lparr>platform_name = ''linux_x64'', platform_system = ''linux'', platform_arch = ''x64'',
      urlopen_read = (\<lambda>url.
        if url = ''https://raw.githubusercontent.com/alice/plugin.a/main/addon.xml''
        then Inr ''<addon id=plugin.a/>''
        else if url = ''https://api.github.com/repos/carol/plugin.c/releases/latest''
        then Inr ''{tag_name: v1.0}''
        else if url = ''https://api.github.com/repos/dave/plugin.d/releases/latest''
        then Inr ''{}''
        else Inl IOError),
      read_file = (\<lambda>path. Inl IOError),
      json_loads = (\<lambda>body.
        if body = ''{tag_name: v1.0}'' then Inr (PDict [(PStr ''tag_name'', PStr ''v1.0'')])
        else if body = ''{}'' then Inr (PDict [])
        else Inl ParseError),
      xml_fromstring = (\<lambda>body.
        if body = ''<addon id=plugin.a/>''
        then Inr (Element ''addon'' [(''id'', ''plugin.a'')] [] [])
        else Inl ParseError),
      xml_tostring = (\<lambda>x. case x of Element tag attrib txt children \<Rightarrow> ''<'' @ tag @ ''/>''),
      urljoin_str = (\<lambda>base url. Inr (base @ url)),
      str_of = (\<lambda>v. ''None''),
      format_general = (\<lambda>template formats. Inl ValueError)\<rparr>"

definition empty_repo :: repo where
  "empty_repo =
     \<lparr>files = [], urls = [], max_threads = 5, addons = [], latest_release_cache = [],
      addons_xml_cache = None, requests = [], log = []\<rparr>"

definition items_a :: "(pyval \<times> pyval) list" where
  "items_a = [(PStr ''id'', PStr ''plugin.a''), (PStr ''username'', PStr ''alice''),
              (PStr ''branch'', PStr ''main'')]"

definition items_a2 :: "(pyval \<times> pyval) list" where
  "items_a2 = [(PStr ''id'', PStr ''plugin.a''), (PStr ''username'', PStr ''alice2''),
               (PStr ''platforms'', PList [PStr ''linux_x64''])]"

definition items_b :: "(pyval \<times> pyval) list" where
  "items_b = [(PStr ''id'', PStr ''plugin.b''), (PStr ''username'', PStr ''bob'')]"

definition items_w :: "(pyval \<times> pyval) list" where
  "items_w = [(PStr ''id'', PStr ''plugin.w''), (PStr ''username'', PStr ''wendy''),
              (PStr ''platforms'', PList [PStr ''windows_x64''])]"

definition items_x :: "(pyval \<times> pyval) list" where
  "items_x = [(PStr ''id'', PStr ''plugin.x'')]"

definition addon_a :: addon where
  "addon_a = \<lparr>id' = PStr ''plugin.a'', username = PStr ''alice'', branch = PStr ''main'',
              assets = PDict [], asset_prefix = PStr [], repository = PStr ''plugin.a''\<rparr>"

definition addon_b :: addon where
  "addon_b = \<lparr>id' = PStr ''plugin.b'', username = PStr ''bob'', branch = PNone,
              assets = PDict [], asset_prefix = PStr [], repository = PStr ''plugin.b''\<rparr>"

definition addon_c :: addon where
  "addon_c = \<lparr>id' = PStr ''plugin.c'', username = PStr ''carol'', branch = PNone,
              assets = PDict [], asset_prefix = PStr [], repository = PStr ''plugin.c''\<rparr>"

definition addon_d :: addon where
  "addon_d = \<lparr>id' = PStr ''plugin.d'', username = PStr ''dave'', branch = PStr [],
              assets = PDict [], asset_prefix = PStr [], repository = PStr ''plugin.d''\<rparr>"

definition addon_e :: addon where
  "addon_e = \<lparr>id' = PStr ''plugin.e'', username = PStr ''erin'', branch = PStr ''main'',
              assets = PDict [], asset_prefix = PStr [], repository = PStr ''plugin.e''\<rparr>"

text \<open>A store of three add-ons whose URLs can all be built, and one of two where the
  latest release of the second cannot be looked up.\<close>

definition repo_cae :: repo where
  "repo_cae = empty_repo\<lparr>addons := [(PStr ''plugin.c'', addon_c), (PStr ''plugin.a'', addon_a),
                                     (PStr ''plugin.e'', addon_e)]\<rparr>"

definition repo_ab :: repo where
  "repo_ab = empty_repo\<lparr>addons := [(PStr ''plugin.a'', addon_a), (PStr ''plugin.b'', addon_b)]\<rparr>"

section \<open>Entry validation: the contract\<close>

lemma validate_dict_items_iff:
  "validate_dict_items kvs =
     (if list_ex (\<lambda>(a, b). \<not> is_string a \<or> \<not> is_string b) kvs
      then Inl InvalidSchemaError else Inr ())"
  by (induction kvs) auto

lemma validate_list_items_iff:
  "validate_list_items xs =
     (if list_ex (\<lambda>x. \<not> is_string x) xs then Inl InvalidSchemaError else Inr ())"
  by (induction xs) auto

text \<open>What makes one item of an entry fail, as \<^const>\<open>validate_item\<close> decides it.\<close>

lemma validate_item_iff:
  "validate_item k v =
     (if schema_type k = None \<or>
         (case schema_type k of None \<Rightarrow> False | Some t \<Rightarrow> \<not> isinstance v t) \<or>
         (schema_type k = Some TDict \<and>
           (case v of
              PDict kvs \<Rightarrow> list_ex (\<lambda>(a, b). \<not> is_string a \<or> \<not> is_string b) kvs
            | _ \<Rightarrow> False)) \<or>
         (schema_type k = Some TList \<and>
           (case v of PList xs \<Rightarrow> list_ex (\<lambda>x. \<not> is_string x) xs | _ \<Rightarrow> False))
      then Inl InvalidSchemaError else Inr ())"
  unfolding validate_item_def
  by (cases "schema_type k"; cases v)
     (auto simp: validate_dict_items_iff validate_list_items_iff split: ftype.splits)

lemma validate_items_iff:
  "validate_items items =
     (if has_unknown_key items \<or> has_type_mismatch items \<or> mapping_field_bad items \<or>
         list_field_bad items
      then Inl InvalidSchemaError else Inr ())"
proof (induction items)
  case Nil
  show ?case
    by (simp add: has_unknown_key_def has_type_mismatch_def mapping_field_bad_def
        list_field_bad_def)
next
  case (Cons kv items)
  obtain k v where kv: "kv = (k, v)" by (cases kv)
  show ?case
    unfolding kv validate_items.simps validate_item_iff Cons.IH
    unfolding has_unknown_key_def has_type_mismatch_def mapping_field_bad_def
      list_field_bad_def
    by (cases "schema_type k") auto
qed

lemma validate_required_iff:
  "validate_required ks items =
     (if list_ex (\<lambda>k. PStr k \<notin> fst ` set items) ks then Inl InvalidSchemaError else Inr ())"
  by (induction ks) (auto simp: dict_get_def map_of_eq_None_iff)

text \<open>
  C5. For every input value, \<^verbatim>\<open>validate_entry_schema\<close> raises \<^verbatim>\<open>InvalidSchemaError\<close>
  if and only if the entry is not a mapping, or a required key (\<^verbatim>\<open>id\<close>, \<^verbatim>\<open>username\<close>) is
  missing, or a key outside the fixed schema is present, or some value's type differs
  from the declared type of its field, or a mapping-typed field holds a non-string key
  or value, or a list-typed field holds a non-string element; on every other input it
  returns normally, with no value. It raises nothing else.
\<close>

theorem validate_entry_schema_contract:
  "(validate_entry_schema e = Inl InvalidSchemaError) = entry_malformed e \<and>
   (validate_entry_schema e = Inr ()) = (\<not> entry_malformed e)"
  by (cases e)
     (auto simp: entry_malformed_def validate_required_iff validate_items_iff
        missing_required_key_def)

theorem validate_entry_schema_contract_witness:
  "validate_entry_schema (PDict items_a) = Inr () \<and>
   \<not> entry_malformed (PDict items_a) \<and>
   validate_entry_schema (PDict items_x) = Inl InvalidSchemaError \<and>
   entry_malformed (PDict items_x) \<and>
   validate_entry_schema
     (PDict [(PStr ''id'', PStr ''plugin.a''), (PStr ''username'', PStr ''alice''),
             (PStr ''assets'', PDict [(PStr ''icon.png'', PInt 1)])]) = Inl InvalidSchemaError \<and>
   validate_entry_schema (PList []) = Inl InvalidSchemaError"
proof -
  have a: "\<not> entry_malformed (PDict items_a)"
    by (simp add: entry_malformed_def items_a_def missing_required_key_def has_unknown_key_def
        has_type_mismatch_def mapping_field_bad_def list_field_bad_def
        ENTRY_SCHEMA_required_def ENTRY_SCHEMA_properties_def)
  have x: "entry_malformed (PDict items_x)"
    by (simp add: entry_malformed_def items_x_def missing_required_key_def
        ENTRY_SCHEMA_required_def)
  have m: "entry_malformed
     (PDict [(PStr ''id'', PStr ''plugin.a''), (PStr ''username'', PStr ''alice''),
             (PStr ''assets'', PDict [(PStr ''icon.png'', PInt 1)])])"
    by (simp add: entry_malformed_def mapping_field_bad_def ENTRY_SCHEMA_properties_def)
  have l: "entry_malformed (PList [])"
    by (simp add: entry_malformed_def)
  show ?thesis
    using a x m l
      validate_entry_schema_contract[of "PDict items_a"]
      validate_entry_schema_contract[of "PDict items_x"]
      validate_entry_schema_contract[of "PDict [(PStr ''id'', PStr ''plugin.a''),
          (PStr ''username'', PStr ''alice''),
          (PStr ''assets'', PDict [(PStr ''icon.png'', PInt 1)])]"]
      validate_entry_schema_contract[of "PList []"]
    by blast
qed

section \<open>Valid entries\<close>

lemma validate_items_all:
  "validate_items items = Inr () \<Longrightarrow> (k, v) \<in> set items \<Longrightarrow> validate_item k v = Inr ()"
  by (induction items) (auto split: sum.splits)

lemma valid_entry_item:
  assumes "validate_entry_schema (PDict items) = Inr ()" and "dict_get items k = Some v"
  shows "validate_item (PStr k) v = Inr ()"
proof -
  from assms(1) have "validate_items items = Inr ()"
    by (simp split: sum.splits)
  moreover from assms(2) have "(PStr k, v) \<in> set items"
    by (simp add: dict_get_def map_of_SomeD)
  ultimately show ?thesis by (rule validate_items_all)
qed

lemma valid_entry_required:
  assumes "validate_entry_schema (PDict items) = Inr ()"
  shows "dict_get items ''id'' \<noteq> None \<and> dict_get items ''username'' \<noteq> None"
  using assms by (auto simp: ENTRY_SCHEMA_required_def split: sum.splits if_splits)

lemma valid_entry_id:
  assumes "validate_entry_schema (PDict items) = Inr ()"
  shows "\<exists>i. dict_get items ''id'' = Some (PStr i)"
proof -
  from valid_entry_required[OF assms] obtain v where v: "dict_get items ''id'' = Some v"
    by auto
  from valid_entry_item[OF assms v] have "is_string v"
    by (simp add: validate_item_def ENTRY_SCHEMA_properties_def split: if_splits)
  then show ?thesis using v by (cases v) auto
qed

lemma valid_entry_username:
  assumes "validate_entry_schema (PDict items) = Inr ()"
  shows "\<exists>u. dict_get items ''username'' = Some (PStr u)"
proof -
  from valid_entry_required[OF assms] obtain v where v: "dict_get items ''username'' = Some v"
    by auto
  from valid_entry_item[OF assms v] have "is_string v"
    by (simp add: validate_item_def ENTRY_SCHEMA_properties_def split: if_splits)
  then show ?thesis using v by (cases v) auto
qed

lemma valid_entry_platforms:
  assumes "validate_entry_schema (PDict items) = Inr ()"
  shows "dict_get items ''platforms'' = None \<or>
         (\<exists>ps. dict_get items ''platforms'' = Some (PList ps))"
proof (cases "dict_get items ''platforms''")
  case None
  then show ?thesis by simp
next
  case (Some v)
  from valid_entry_item[OF assms Some] have "isinstance v TList"
    by (simp add: validate_item_def ENTRY_SCHEMA_properties_def split: if_splits)
  then show ?thesis using Some by (cases v) auto
qed

lemma platform_excluded_valid:
  assumes "validate_entry_schema (PDict items) = Inr ()"
  shows "platform_excluded (dict_get_default items ''platforms'' PNone) name =
           Inr (whitelist_excludes items name)"
  using valid_entry_platforms[OF assms]
  by (auto simp: platform_excluded_def whitelist_excludes_def dict_get_default_def)

lemma load_entry_valid:
  assumes valid: "validate_entry_schema (PDict items) = Inr ()"
    and i: "dict_get items ''id'' = Some addon_id"
    and u: "dict_get items ''username'' = Some uname"
  shows "load_entry env (PDict items) s =
     (if whitelist_excludes items (platform_name env)
      then (Inr (), s\<lparr>log := log s @ [LogDebug addon_id (platform_name env)]\<rparr>)
      else (Inr (), s\<lparr>addons := od_set (addons s) addon_id (make_addon addon_id uname items)\<rparr>))"
proof -
  from valid_entry_id[OF valid] i have "hashable addon_id" by auto
  then show ?thesis
    by (simp add: load_entry_def i u platform_excluded_valid[OF valid])
qed

section \<open>The ordered store\<close>

lemma od_get_od_set_same: "od_get (od_set kvs k v) k = Some v"
  by (induction kvs) (auto simp: key_eq_def)

lemma od_set_keys_present:
  "od_get kvs k \<noteq> None \<Longrightarrow> map fst (od_set kvs k v) = map fst kvs"
  by (induction kvs) auto

lemma od_set_keys_absent:
  "od_get kvs k = None \<Longrightarrow> map fst (od_set kvs k v) = map fst kvs @ [k]"
  by (induction kvs) auto

lemma od_set_norm_keys:
  "map (\<lambda>kv. key_norm (fst kv)) (od_set kvs k v) =
     (if key_norm k \<in> set (map (\<lambda>kv. key_norm (fst kv)) kvs)
      then map (\<lambda>kv. key_norm (fst kv)) kvs
      else map (\<lambda>kv. key_norm (fst kv)) kvs @ [key_norm k])"
  by (induction kvs) (force simp: key_eq_def)+

lemma od_set_one_record:
  "one_record_per_id kvs \<Longrightarrow> one_record_per_id (od_set kvs k v)"
  unfolding one_record_per_id_def od_set_norm_keys by auto

lemma records_for_absent:
  "key_norm k \<notin> set (map (\<lambda>kv. key_norm (fst kv)) kvs) \<Longrightarrow> records_for kvs k = []"
  by (induction kvs) (auto simp: records_for_def key_eq_def)

lemma records_for_od_set:
  "one_record_per_id kvs \<Longrightarrow> records_for (od_set kvs k v) k = [v]"
proof (induction kvs)
  case Nil
  then show ?case by (simp add: records_for_def key_eq_def)
next
  case (Cons kv kvs)
  obtain k' v' where kv: "kv = (k', v')" by (cases kv)
  show ?case
  proof (cases "key_eq k' k")
    case True
    with Cons.prems have "key_norm k \<notin> set (map (\<lambda>kv. key_norm (fst kv)) kvs)"
      by (auto simp: one_record_per_id_def kv key_eq_def)
    from records_for_absent[OF this] True show ?thesis
      by (simp add: kv records_for_def)
  next
    case False
    with Cons show ?thesis by (simp add: kv records_for_def one_record_per_id_def)
  qed
qed

section \<open>What a load pass does to the store\<close>

lemma load_entry_store:
  "addons (snd (load_entry env e s)) = addons s \<or>
   (\<exists>k v. addons (snd (load_entry env e s)) = od_set (addons s) k v)"
  unfolding load_entry_def
  by (auto split: sum.splits pyval.splits bool.splits)

lemma load_entry_one_record:
  "one_record_per_id (addons s) \<Longrightarrow> one_record_per_id (addons (snd (load_entry env e s)))"
  using load_entry_store[of env e s] od_set_one_record by auto

lemma load_entries_one_record:
  "one_record_per_id (addons s) \<Longrightarrow> one_record_per_id (addons (snd (load_entries env es s)))"
proof (induction es arbitrary: s)
  case Nil
  then show ?case by simp
next
  case (Cons e es)
  obtain r s' where step: "load_entry env e s = (r, s')" by (cases "load_entry env e s")
  from load_entry_one_record[OF Cons.prems, of env e] step
  have "one_record_per_id (addons s')" by simp
  from Cons.IH[OF this] Cons.prems step \<open>one_record_per_id (addons s')\<close>
  show ?case by (cases r) auto
qed

lemma load_data_one_record:
  "one_record_per_id (addons s) \<Longrightarrow> one_record_per_id (addons (snd (load_data env d s)))"
  unfolding load_data_def
  by (cases "py_iter d") (auto intro: load_entries_one_record)

lemma load_url_one_record:
  "one_record_per_id (addons s) \<Longrightarrow> one_record_per_id (addons (snd (load_url env u s)))"
  unfolding load_url_def get_request_def
  by (auto split: sum.splits intro: load_data_one_record)

lemma load_file_one_record:
  "one_record_per_id (addons s) \<Longrightarrow> one_record_per_id (addons (snd (load_file env p s)))"
  unfolding load_file_def
  by (auto split: sum.splits intro: load_data_one_record)

lemma load_each_one_record:
  assumes "\<And>x s. one_record_per_id (addons s) \<Longrightarrow> one_record_per_id (addons (snd (load x s)))"
  shows "one_record_per_id (addons s) \<Longrightarrow> one_record_per_id (addons (snd (load_each load xs s)))"
proof (induction xs arbitrary: s)
  case Nil
  then show ?case by simp
next
  case (Cons x xs)
  obtain r s' where step: "load x s = (r, s')" by (cases "load x s")
  from assms[OF Cons.prems, of x] step have s': "one_record_per_id (addons s')" by simp
  from Cons.IH[OF s'] s' step show ?case by (cases r) auto
qed

lemma update_one_record:
  assumes "one_record_per_id (addons s)"
  shows "one_record_per_id (addons (snd (update env clear s)))"
proof -
  define s0 where "s0 = (if clear then s\<lparr>addons := []\<rparr> else s)"
  have s0: "one_record_per_id (addons s0)"
    using assms by (simp add: s0_def one_record_per_id_def)
  obtain r s1 where urls: "load_each (load_url env) (urls s0) s0 = (r, s1)"
    by (cases "load_each (load_url env) (urls s0) s0")
  have s1: "one_record_per_id (addons s1)"
    using load_each_one_record[of "load_url env" s0 "urls s0", OF load_url_one_record s0] urls
    by simp
  have "one_record_per_id (addons (snd (load_each (load_file env) (files s1) s1)))"
    by (rule load_each_one_record[OF load_file_one_record s1])
  with s1 urls show ?thesis
    unfolding update_def s0_def[symmetric] Let_def by (cases r) auto
qed

section \<open>The claims about loading\<close>

text \<open>
  C6. For every entry processed by a load pass (a validated entry, with its \<^verbatim>\<open>id\<close> and
  \<^verbatim>\<open>username\<close>): if the entry declares a non-empty platform whitelist that does not
  contain the current platform name, the entry is skipped, the skip is logged at debug
  level and the store is unchanged; otherwise the Add-on record of that id is
  constructed or overwritten, with \<^verbatim>\<open>repository\<close> defaulting to the entry's id,
  \<^verbatim>\<open>assets\<close> to the empty mapping, \<^verbatim>\<open>asset_prefix\<close> to the empty string (and \<^verbatim>\<open>branch\<close> to
  \<^verbatim>\<open>None\<close>), and is what the store then holds for the id. An entry lacking a platform
  whitelist is loaded on every platform.
\<close>

theorem load_entry_platform_filter:
  assumes "validate_entry_schema (PDict items) = Inr ()"
    and "dict_get items ''id'' = Some addon_id"
    and "dict_get items ''username'' = Some uname"
  shows "load_entry env (PDict items) s =
     (if whitelist_excludes items (platform_name env)
      then (Inr (), s\<lparr>log := log s @ [LogDebug addon_id (platform_name env)]\<rparr>)
      else (Inr (), s\<lparr>addons := od_set (addons s) addon_id
              \<lparr>id' = addon_id, username = uname,
               branch = (case dict_get items ''branch'' of None \<Rightarrow> PNone | Some b \<Rightarrow> b),
               assets = (case dict_get items ''assets'' of None \<Rightarrow> PDict [] | Some a \<Rightarrow> a),
               asset_prefix =
                 (case dict_get items ''asset_prefix'' of None \<Rightarrow> PStr [] | Some p \<Rightarrow> p),
               repository =
                 (case dict_get items ''repository'' of None \<Rightarrow> addon_id | Some r \<Rightarrow> r)\<rparr>\<rparr>))
   \<and> (whitelist_excludes items (platform_name env) \<longrightarrow>
        addons (snd (load_entry env (PDict items) s)) = addons s)
   \<and> (\<not> whitelist_excludes items (platform_name env) \<longrightarrow>
        od_get (addons (snd (load_entry env (PDict items) s))) addon_id =
          Some (make_addon addon_id uname items))
   \<and> (dict_get items ''platforms'' = None \<longrightarrow>
        (\<forall>env'. od_get (addons (snd (load_entry env' (PDict items) s))) addon_id =
                  Some (make_addon addon_id uname items)))"
proof -
  have none: "\<not> whitelist_excludes items name" if "dict_get items ''platforms'' = None" for name
    using that by (simp add: whitelist_excludes_def)
  show ?thesis
    using none
    by (simp add: load_entry_valid[OF assms] od_get_od_set_same)
       (simp add: make_addon_def dict_get_default_def)
qed

theorem load_entry_platform_filter_witness:
  "load_entry example_env (PDict items_a2) empty_repo =
     (Inr (), empty_repo\<lparr>addons :=
        [(PStr ''plugin.a'',
          \<lparr>id' = PStr ''plugin.a'', username = PStr ''alice2'', branch = PNone,
           assets = PDict [], asset_prefix = PStr [], repository = PStr ''plugin.a''\<rparr>)]\<rparr>) \<and>
   load_entry example_env (PDict items_w) empty_repo =
     (Inr (), empty_repo\<lparr>log := [LogDebug (PStr ''plugin.w'') ''linux_x64'']\<rparr>) \<and>
   validate_entry_schema (PDict items_a2) = Inr () \<and>
   validate_entry_schema (PDict items_w) = Inr ()"
proof -
  have a: "validate_entry_schema (PDict items_a2) = Inr ()"
    by (simp add: items_a2_def ENTRY_SCHEMA_required_def ENTRY_SCHEMA_properties_def
        dict_get_def validate_item_def)
  have w: "validate_entry_schema (PDict items_w) = Inr ()"
    by (simp add: items_w_def ENTRY_SCHEMA_required_def ENTRY_SCHEMA_properties_def
        dict_get_def validate_item_def)
  have ia: "dict_get items_a2 ''id'' = Some (PStr ''plugin.a'')"
    and ua: "dict_get items_a2 ''username'' = Some (PStr ''alice2'')"
    by (simp_all add: items_a2_def dict_get_def)
  have iw: "dict_get items_w ''id'' = Some (PStr ''plugin.w'')"
    and uw: "dict_get items_w ''username'' = Some (PStr ''wendy'')"
    by (simp_all add: items_w_def dict_get_def)
  have xa: "\<not> whitelist_excludes items_a2 (platform_name example_env)"
    by (simp add: whitelist_excludes_def items_a2_def dict_get_def example_env_def)
  have xw: "whitelist_excludes items_w (platform_name example_env)"
    by (simp add: whitelist_excludes_def items_w_def dict_get_def example_env_def)
  from load_entry_platform_filter[OF a ia ua, of example_env empty_repo] xa
  have "load_entry example_env (PDict items_a2) empty_repo =
     (Inr (), empty_repo\<lparr>addons :=
        [(PStr ''plugin.a'',
          \<lparr>id' = PStr ''plugin.a'', username = PStr ''alice2'', branch = PNone,
           assets = PDict [], asset_prefix = PStr [], repository = PStr ''plugin.a''\<rparr>)]\<rparr>)"
    by (simp add: items_a2_def dict_get_def empty_repo_def)
  moreover
  from load_entry_platform_filter[OF w iw uw, of example_env empty_repo] xw
  have "load_entry example_env (PDict items_w) empty_repo =
     (Inr (), empty_repo\<lparr>log := [LogDebug (PStr ''plugin.w'') ''linux_x64'']\<rparr>)"
    by (simp add: empty_repo_def example_env_def)
  ultimately show ?thesis using a w by simp
qed

text \<open>
  C7. After every sequence of load operations the store holds at most one record per
  add-on id: the empty store of \<^verbatim>\<open>__init__\<close> does, and \<^verbatim>\<open>_load_data\<close>, \<^verbatim>\<open>_load_url\<close>,
  \<^verbatim>\<open>_load_file\<close> and \<^verbatim>\<open>update\<close> keep it so on every input. Loading an entry (one that
  the platform filter lets through) whose id is already present replaces the earlier
  record: the store then holds exactly one record for the id, and its fields are those
  of the later entry alone.
\<close>

theorem load_one_record_per_id:
  "one_record_per_id (addons (snd (init env fs us n))) \<and>
   (one_record_per_id (addons s) \<longrightarrow>
      one_record_per_id (addons (snd (load_data env d s))) \<and>
      one_record_per_id (addons (snd (load_url env u s))) \<and>
      one_record_per_id (addons (snd (load_file env p s))) \<and>
      one_record_per_id (addons (snd (update env clear s)))) \<and>
   (one_record_per_id (addons s) \<and>
    validate_entry_schema (PDict items) = Inr () \<and>
    dict_get items ''id'' = Some addon_id \<and>
    dict_get items ''username'' = Some uname \<and>
    \<not> whitelist_excludes items (platform_name env) \<longrightarrow>
      records_for (addons (snd (load_data env (PList [PDict items]) s))) addon_id =
        [make_addon addon_id uname items])"
proof -
  have "one_record_per_id (addons (snd (init env fs us n)))"
    unfolding init_def by (rule update_one_record) (simp add: one_record_per_id_def)
  moreover have "records_for (addons (snd (load_data env (PList [PDict items]) s))) addon_id =
        [make_addon addon_id uname items]"
    if "one_record_per_id (addons s)" "validate_entry_schema (PDict items) = Inr ()"
      "dict_get items ''id'' = Some addon_id" "dict_get items ''username'' = Some uname"
      "\<not> whitelist_excludes items (platform_name env)"
    using that
    by (simp add: load_data_def load_entry_valid[OF that(2,3,4)] records_for_od_set)
  ultimately show ?thesis
    using load_data_one_record load_url_one_record load_file_one_record update_one_record
    by blast
qed

text \<open>Two successive loads that share the id \<^verbatim>\<open>plugin.a\<close>, from the empty store.\<close>

theorem load_one_record_per_id_witness:
  "snd (load_data example_env (PList [PDict items_a]) empty_repo) =
     empty_repo\<lparr>addons := [(PStr ''plugin.a'', addon_a)]\<rparr> \<and>
   records_for
     (addons (snd (load_data example_env (PList [PDict items_a2])
        (empty_repo\<lparr>addons := [(PStr ''plugin.a'', addon_a)]\<rparr>))))
     (PStr ''plugin.a'') =
     [\<lparr>id' = PStr ''plugin.a'', username = PStr ''alice2'', branch = PNone,
       assets = PDict [], asset_prefix = PStr [], repository = PStr ''plugin.a''\<rparr>]"
proof -
  have first: "snd (load_data example_env (PList [PDict items_a]) empty_repo) =
     empty_repo\<lparr>addons := [(PStr ''plugin.a'', addon_a)]\<rparr>"
    by (simp add: load_data_def load_entry_def items_a_def dict_get_def dict_get_default_def
        platform_excluded_def make_addon_def addon_a_def empty_repo_def)
  have one: "one_record_per_id (addons (empty_repo\<lparr>addons := [(PStr ''plugin.a'', addon_a)]\<rparr>))"
    by (simp add: one_record_per_id_def)
  have a: "validate_entry_schema (PDict items_a2) = Inr ()"
    by (simp add: items_a2_def ENTRY_SCHEMA_required_def ENTRY_SCHEMA_properties_def
        dict_get_def validate_item_def)
  have ia: "dict_get items_a2 ''id'' = Some (PStr ''plugin.a'')"
    and ua: "dict_get items_a2 ''username'' = Some (PStr ''alice2'')"
    by (simp_all add: items_a2_def dict_get_def)
  have xa: "\<not> whitelist_excludes items_a2 (platform_name example_env)"
    by (simp add: whitelist_excludes_def items_a2_def dict_get_def example_env_def)
  from load_one_record_per_id[of example_env "[]" "[]" 5
      "empty_repo\<lparr>addons := [(PStr ''plugin.a'', addon_a)]\<rparr>" PNone "[]" "[]" False
      items_a2 "PStr ''plugin.a''" "PStr ''alice2''"] one a ia ua xa
  have "records_for
     (addons (snd (load_data example_env (PList [PDict items_a2])
        (empty_repo\<lparr>addons := [(PStr ''plugin.a'', addon_a)]\<rparr>))))
     (PStr ''plugin.a'') = [make_addon (PStr ''plugin.a'') (PStr ''alice2'') items_a2]"
    by blast
  then show ?thesis using first
    by (simp add: make_addon_def items_a2_def dict_get_def dict_get_default_def)
qed

text \<open>
  C9. Loading an entry whose id is already in the store replaces the record's fields
  and keeps the id where it stands in the store's iteration order: the sequence of
  keys is unchanged (the id is not moved to the end), so the order of iteration, and of
  the manifest, is the order in which the ids were first inserted.
\<close>

theorem load_entry_keeps_position:
  assumes "validate_entry_schema (PDict items) = Inr ()"
    and "dict_get items ''id'' = Some addon_id"
    and "dict_get items ''username'' = Some uname"
    and "\<not> whitelist_excludes items (platform_name env)"
    and "od_get (addons s) addon_id \<noteq> None"
  shows "map fst (addons (snd (load_entry env (PDict items) s))) = map fst (addons s) \<and>
         od_get (addons (snd (load_entry env (PDict items) s))) addon_id =
           Some (make_addon addon_id uname items)"
  using assms(4,5)
  by (simp add: load_entry_valid[OF assms(1,2,3)] od_set_keys_present od_get_od_set_same)

theorem load_entry_keeps_position_witness:
  "addons (snd (load_entry example_env (PDict items_a2)
      (empty_repo\<lparr>addons := [(PStr ''plugin.a'', addon_a), (PStr ''plugin.b'', addon_b)]\<rparr>))) =
     [(PStr ''plugin.a'',
       \<lparr>id' = PStr ''plugin.a'', username = PStr ''alice2'', branch = PNone,
        assets = PDict [], asset_prefix = PStr [], repository = PStr ''plugin.a''\<rparr>),
      (PStr ''plugin.b'', addon_b)] \<and>
   map fst (addons (snd (load_entry example_env (PDict items_a2)
      (empty_repo\<lparr>addons := [(PStr ''plugin.a'', addon_a), (PStr ''plugin.b'', addon_b)]\<rparr>)))) =
     [PStr ''plugin.a'', PStr ''plugin.b'']"
proof -
  let ?s = "empty_repo\<lparr>addons := [(PStr ''plugin.a'', addon_a), (PStr ''plugin.b'', addon_b)]\<rparr>"
  have a: "validate_entry_schema (PDict items_a2) = Inr ()"
    by (simp add: items_a2_def ENTRY_SCHEMA_required_def ENTRY_SCHEMA_properties_def
        dict_get_def validate_item_def)
  have ia: "dict_get items_a2 ''id'' = Some (PStr ''plugin.a'')"
    and ua: "dict_get items_a2 ''username'' = Some (PStr ''alice2'')"
    by (simp_all add: items_a2_def dict_get_def)
  have xa: "\<not> whitelist_excludes items_a2 (platform_name example_env)"
    by (simp add: whitelist_excludes_def items_a2_def dict_get_def example_env_def)
  have present: "od_get (addons ?s) (PStr ''plugin.a'') \<noteq> None"
    by (simp add: key_eq_def)
  have run: "addons (snd (load_entry example_env (PDict items_a2) ?s)) =
     [(PStr ''plugin.a'',
       \<lparr>id' = PStr ''plugin.a'', username = PStr ''alice2'', branch = PNone,
        assets = PDict [], asset_prefix = PStr [], repository = PStr ''plugin.a''\<rparr>),
      (PStr ''plugin.b'', addon_b)]"
    by (simp add: load_entry_def items_a2_def dict_get_def dict_get_default_def
        platform_excluded_def make_addon_def example_env_def key_eq_def)
  from load_entry_keeps_position[OF a ia ua xa present]
  have "map fst (addons (snd (load_entry example_env (PDict items_a2) ?s))) = map fst (addons ?s)"
    by simp
  with run show ?thesis by simp
qed

section \<open>Loading and validation\<close>

lemma load_entry_error_state:
  "fst (load_entry env e s) = Inl err \<Longrightarrow> snd (load_entry env e s) = s"
  unfolding load_entry_def
  by (auto split: sum.splits pyval.splits bool.splits if_splits)

lemma load_entries_append:
  "load_entries env (xs @ ys) s =
     (case load_entries env xs s of
        (Inl e, s') \<Rightarrow> (Inl e, s')
      | (Inr u, s') \<Rightarrow> load_entries env ys s')"
  by (induction xs arbitrary: s) (auto split: prod.splits sum.splits)

lemma load_entries_stop:
  assumes "fst (load_entries env pre s) = Inr ()"
    and "fst (load_entry env bad (snd (load_entries env pre s))) = Inl err"
  shows "load_entries env (pre @ bad # rest) s = (Inl err, snd (load_entries env pre s))"
proof -
  obtain s1 where pre: "load_entries env pre s = (Inr (), s1)"
    using assms(1) by (cases "load_entries env pre s") auto
  obtain r s2 where bad: "load_entry env bad s1 = (r, s2)"
    by (cases "load_entry env bad s1")
  from assms(2) pre bad have r: "r = Inl err" by simp
  from load_entry_error_state[of env bad s1 err] bad r have "s2 = s1" by simp
  with pre bad r show ?thesis by (simp add: load_entries_append)
qed

lemma load_entry_valid_ok:
  assumes "validate_entry_schema e = Inr ()"
  shows "fst (load_entry env e s) = Inr ()"
proof -
  from assms obtain items where e: "e = PDict items" by (cases e) auto
  from valid_entry_id[OF assms[unfolded e]] obtain i
    where i: "dict_get items ''id'' = Some (PStr i)" by auto
  from valid_entry_username[OF assms[unfolded e]] obtain u
    where u: "dict_get items ''username'' = Some (PStr u)" by auto
  show ?thesis
    unfolding e by (simp add: load_entry_valid[OF assms[unfolded e] i u])
qed

lemma load_entries_valid_ok:
  "validate_entries es = Inr () \<Longrightarrow> fst (load_entries env es s) = Inr ()"
proof (induction es arbitrary: s)
  case Nil
  then show ?case by simp
next
  case (Cons e es)
  from Cons.prems have e: "validate_entry_schema e = Inr ()"
    and es: "validate_entries es = Inr ()"
    by (auto split: sum.splits)
  obtain r s' where step: "load_entry env e s = (r, s')" by (cases "load_entry env e s")
  from load_entry_valid_ok[OF e, of env s] step have "r = Inr ()" by simp
  with step Cons.IH[OF es, of s'] show ?case by simp
qed

lemma validate_entries_iff:
  "validate_entries es =
     (if list_all (\<lambda>e. validate_entry_schema e = Inr ()) es then Inr ()
      else Inl InvalidSchemaError)"
proof (induction es)
  case Nil
  show ?case by simp
next
  case (Cons e es)
  have "validate_entry_schema e = Inr () \<or> validate_entry_schema e = Inl InvalidSchemaError"
    by (cases e)
       (auto simp: validate_required_iff validate_items_iff)
  with Cons show ?case by (auto split: sum.splits)
qed

lemma py_getitem_str_error:
  "py_getitem_str v k = Inl e \<Longrightarrow> e = KeyError \<or> e = TypeError"
  by (cases v) (auto split: option.splits)

lemma platform_excluded_error:
  "platform_excluded v name = Inl e \<Longrightarrow> e = TypeError"
  unfolding platform_excluded_def
  by (cases v) (auto split: if_splits)

lemma load_entry_error_kind:
  assumes "fst (load_entry env bad s0) = Inl err"
  shows "err = KeyError \<or> err = TypeError"
proof (cases "py_getitem_str bad ''id''")
  case (Inl e)
  with assms py_getitem_str_error[OF Inl] show ?thesis
    by (simp add: load_entry_def)
next
  case (Inr addon_id)
  then obtain items where bad: "bad = PDict items" by (cases bad) auto
  show ?thesis
  proof (cases "platform_excluded (dict_get_default items ''platforms'' PNone)
                  (platform_name env)")
    case (Inl e)
    with assms Inr bad platform_excluded_error[OF Inl] show ?thesis
      by (simp add: load_entry_def)
  next
    case ex: (Inr b)
    show ?thesis
    proof (cases "py_getitem_str bad ''username''")
      case (Inl e)
      with assms Inr bad ex py_getitem_str_error[OF Inl] show ?thesis
        by (cases b) (auto simp: load_entry_def)
    next
      case un: (Inr uname)
      with assms Inr bad ex show ?thesis
        by (cases b) (auto simp: load_entry_def split: if_splits)
    qed
  qed
qed

text \<open>
  C2, as the code has it. The load path applies no schema validation:
  \<^verbatim>\<open>_load_data\<close> takes the entries in order and stops at the first one that raises, with
  that entry's own error, which is a \<^verbatim>\<open>KeyError\<close> or a \<^verbatim>\<open>TypeError\<close> and never an
  \<^verbatim>\<open>InvalidSchemaError\<close>; the entries before it stay accepted in the store, and the
  failing entry changes nothing. Validation is the separate function
  \<^verbatim>\<open>validate_json_schema\<close>: it raises \<^verbatim>\<open>InvalidSchemaError\<close> exactly when the source is not
  a list or tuple or one of its entries fails \<^verbatim>\<open>validate_entry_schema\<close>, and a source
  that passes it is loaded by \<^verbatim>\<open>_load_data\<close> without an error.
\<close>

theorem load_data_without_validation:
  "(validate_json_schema d = Inr () \<or> validate_json_schema d = Inl InvalidSchemaError) \<and>
   ((validate_json_schema d = Inr ()) =
      (case d of
         PList es \<Rightarrow> list_all (\<lambda>e. validate_entry_schema e = Inr ()) es
       | PTuple es \<Rightarrow> list_all (\<lambda>e. validate_entry_schema e = Inr ()) es
       | _ \<Rightarrow> False)) \<and>
   (validate_json_schema d = Inr () \<longrightarrow> fst (load_data env d s) = Inr ()) \<and>
   (fst (load_entries env pre s) = Inr () \<and>
    fst (load_entry env bad (snd (load_entries env pre s))) = Inl err \<longrightarrow>
      load_data env (PList (pre @ bad # rest)) s = (Inl err, snd (load_entries env pre s)) \<and>
      (err = KeyError \<or> err = TypeError) \<and>
      err \<noteq> InvalidSchemaError)"
proof -
  have kind: "err = KeyError \<or> err = TypeError"
    if "fst (load_entry env bad s0) = Inl err" for s0
    using that by (rule load_entry_error_kind)
  have never: "err \<noteq> InvalidSchemaError"
    if "fst (load_entry env bad s0) = Inl err" for s0
    using kind[OF that] by auto
  have ok: "fst (load_data env d s) = Inr ()" if "validate_json_schema d = Inr ()"
    using that by (cases d) (auto simp: load_data_def load_entries_valid_ok)
  show ?thesis
    using kind never ok
    by (cases d) (auto simp: validate_entries_iff load_data_def load_entries_stop)
qed

theorem load_data_without_validation_witness:
  "validate_json_schema (PList [PDict items_a, PDict items_b]) = Inr () \<and>
   fst (load_data example_env (PList [PDict items_a, PDict items_b]) empty_repo) = Inr () \<and>
   load_data example_env (PList ([PDict items_a] @ PDict items_x # [PDict items_b])) empty_repo =
     (Inl KeyError, empty_repo\<lparr>addons := [(PStr ''plugin.a'', addon_a)]\<rparr>)"
proof -
  have v: "validate_json_schema (PList [PDict items_a, PDict items_b]) = Inr ()"
    by (simp add: items_a_def items_b_def ENTRY_SCHEMA_required_def ENTRY_SCHEMA_properties_def
        dict_get_def validate_item_def)
  have pre: "load_entries example_env [PDict items_a] empty_repo =
      (Inr (), empty_repo\<lparr>addons := [(PStr ''plugin.a'', addon_a)]\<rparr>)"
    by (simp add: load_entry_def items_a_def dict_get_def dict_get_default_def
        platform_excluded_def make_addon_def addon_a_def empty_repo_def)
  have bad: "fst (load_entry example_env (PDict items_x)
      (snd (load_entries example_env [PDict items_a] empty_repo))) = Inl KeyError"
    unfolding pre
    by (simp add: load_entry_def items_x_def dict_get_def dict_get_default_def
        platform_excluded_def)
  from load_data_without_validation[of "PList [PDict items_a, PDict items_b]" example_env
      empty_repo "[PDict items_a]" "PDict items_x" KeyError "[PDict items_b]"] v pre bad
  show ?thesis by simp
qed

text \<open>
  The claim as it was stated fails on a source whose second entry lacks \<^verbatim>\<open>username\<close>:
  validation would reject the source, but the load raises \<^verbatim>\<open>KeyError\<close> after it has
  accepted the first entry.
\<close>

theorem load_data_all_or_nothing_counterexample:
  "validate_json_schema (PList [PDict items_a, PDict items_x]) = Inl InvalidSchemaError \<and>
   load_data example_env (PList [PDict items_a, PDict items_x]) empty_repo =
     (Inl KeyError, empty_repo\<lparr>addons := [(PStr ''plugin.a'', addon_a)]\<rparr>) \<and>
   addons empty_repo = []"
  by (simp add: load_data_def load_entry_def items_a_def items_x_def dict_get_def
      dict_get_default_def platform_excluded_def make_addon_def addon_a_def empty_repo_def
      ENTRY_SCHEMA_required_def ENTRY_SCHEMA_properties_def validate_item_def)

section \<open>Formatting the fixed templates\<close>

lemma format_latest_release_url:
  "py_format env GITHUB_LATEST_RELEASE_URL [(''username'', u), (''repository'', r)] =
     Inr (''https://api.github.com/repos/'' @ format_value env u @ ''/'' @ format_value env r @
          ''/releases/latest'')"
  by (simp add: py_format_def GITHUB_LATEST_RELEASE_URL_def GITHUB_RELEASES_URL_def
      format_field_def prepend_def)

lemma format_zip_url:
  assumes "map_of formats ''username'' = Some u"
    and "map_of formats ''repository'' = Some r"
    and "map_of formats ''branch'' = Some b"
  shows "py_format env GITHUB_ZIP_URL formats =
     Inr (''https://github.com/'' @ format_value env u @ ''/'' @ format_value env r @
          ''/archive/'' @ format_value env b @ ''.zip'')"
  using assms
  by (simp add: py_format_def GITHUB_ZIP_URL_def format_field_def prepend_def)

section \<open>Versioned archive names\<close>

lemma startswith_append: "startswith (p @ s) p"
  by (induction p) auto

lemma endswith_append: "endswith (s @ p) p"
  by (simp add: endswith_def startswith_append)

lemma versioned_archive_name:
  "is_versioned_archive addon_id (addon_id @ ''-'' @ version @ ''.zip'') \<and>
   archive_version addon_id (addon_id @ ''-'' @ version @ ''.zip'') = version"
proof -
  have "startswith ((addon_id @ ''-'') @ version @ ''.zip'') (addon_id @ ''-'')"
    by (rule startswith_append)
  moreover have "endswith ((addon_id @ ''-'' @ version) @ ''.zip'') ''.zip''"
    by (rule endswith_append)
  ultimately show ?thesis
    by (simp add: is_versioned_archive_def archive_version_def slice_to_neg_def
        VERSION_SEPARATOR_def ADDON_EXTENSION_def)
qed

section \<open>The claims about branch resolution\<close>

lemma cache_lookup_store: "cache_lookup now (cache_store now cache k v) k = Some v"
  by (simp add: cache_lookup_def cache_store_def cache_ttl_def)

lemma get_latest_release_miss:
  assumes "cache_lookup now (latest_release_cache s) (u, r) = None"
    and "urlopen_read env
           (''https://api.github.com/repos/'' @ format_value env u @ ''/'' @
            format_value env r @ ''/releases/latest'') = Inr body"
    and "json_loads env body = Inr (PDict kvs)"
  shows "get_latest_release env now u r s =
     (Inr (dict_get_default kvs ''tag_name'' (PStr ''master'')),
      s\<lparr>requests := requests s @
           [''https://api.github.com/repos/'' @ format_value env u @ ''/'' @
            format_value env r @ ''/releases/latest''],
        latest_release_cache :=
           cache_store now (latest_release_cache s) (u, r)
             (dict_get_default kvs ''tag_name'' (PStr ''master''))\<rparr>)"
  using assms
  by (simp add: get_latest_release_def latest_release_body_def format_latest_release_url
      get_request_def)

text \<open>
  C3. Branch resolution (\<^verbatim>\<open>_get_addon_branch\<close>) returns \<^verbatim>\<open>addon.branch\<close> directly when
  the branch is set (it is true as Python's \<^verbatim>\<open>or\<close> tests it: a non-empty string), with no
  network call and no change of state. Otherwise it is the cached latest-release
  lookup: a cache entry that has not expired is returned as it is; without one, the
  code requests the latest-release URL of the owner and repository, and where the
  response parses to a mapping it returns the \<^verbatim>\<open>tag_name\<close> field when present and the
  literal \<^verbatim>\<open>master\<close> when \<^verbatim>\<open>tag_name\<close> is absent, and caches that value.
\<close>

theorem get_addon_branch_resolution:
  "(truthy (branch a) \<longrightarrow> get_addon_branch env now a s = (Inr (branch a), s)) \<and>
   (\<not> truthy (branch a) \<longrightarrow>
      get_addon_branch env now a s =
        get_latest_release env now (username a) (repository a) s) \<and>
   (cache_lookup now (latest_release_cache s) (u, r) = Some v \<longrightarrow>
      get_latest_release env now u r s = (Inr v, s)) \<and>
   (cache_lookup now (latest_release_cache s) (u, r) = None \<and>
    urlopen_read env
      (''https://api.github.com/repos/'' @ format_value env u @ ''/'' @
       format_value env r @ ''/releases/latest'') = Inr body \<and>
    json_loads env body = Inr (PDict kvs) \<longrightarrow>
      fst (get_latest_release env now u r s) =
        Inr (case dict_get kvs ''tag_name'' of Some tag \<Rightarrow> tag | None \<Rightarrow> PStr ''master'') \<and>
      requests (snd (get_latest_release env now u r s)) =
        requests s @
          [''https://api.github.com/repos/'' @ format_value env u @ ''/'' @
           format_value env r @ ''/releases/latest''] \<and>
      cache_lookup now (latest_release_cache (snd (get_latest_release env now u r s))) (u, r) =
        Some (case dict_get kvs ''tag_name'' of Some tag \<Rightarrow> tag | None \<Rightarrow> PStr ''master''))"
proof -
  have miss: "fst (get_latest_release env now u r s) =
        Inr (case dict_get kvs ''tag_name'' of Some tag \<Rightarrow> tag | None \<Rightarrow> PStr ''master'') \<and>
      requests (snd (get_latest_release env now u r s)) =
        requests s @
          [''https://api.github.com/repos/'' @ format_value env u @ ''/'' @
           format_value env r @ ''/releases/latest''] \<and>
      cache_lookup now (latest_release_cache (snd (get_latest_release env now u r s))) (u, r) =
        Some (case dict_get kvs ''tag_name'' of Some tag \<Rightarrow> tag | None \<Rightarrow> PStr ''master'')"
    if "cache_lookup now (latest_release_cache s) (u, r) = None"
      "urlopen_read env
        (''https://api.github.com/repos/'' @ format_value env u @ ''/'' @
         format_value env r @ ''/releases/latest'') = Inr body"
      "json_loads env body = Inr (PDict kvs)"
    unfolding get_latest_release_miss[OF that]
    by (simp add: cache_lookup_store) (simp add: dict_get_default_def)
  have hit: "get_latest_release env now u r s = (Inr v, s)"
    if "cache_lookup now (latest_release_cache s) (u, r) = Some v"
    using that by (simp add: get_latest_release_def)
  show ?thesis
    using miss hit by (simp add: get_addon_branch_def)
qed

text \<open>
  A branch that is set; no branch and a release tagged \<^verbatim>\<open>v1.0\<close>; no branch and a
  response without \<^verbatim>\<open>tag_name\<close>.
\<close>

theorem get_addon_branch_resolution_witness:
  "get_addon_branch example_env 0 addon_a empty_repo = (Inr (PStr ''main''), empty_repo) \<and>
   fst (get_addon_branch example_env 0 addon_c empty_repo) = Inr (PStr ''v1.0'') \<and>
   requests (snd (get_addon_branch example_env 0 addon_c empty_repo)) =
     [''https://api.github.com/repos/carol/plugin.c/releases/latest''] \<and>
   fst (get_latest_release example_env 0 (PStr ''dave'') (PStr ''plugin.d'') empty_repo) =
     Inr (PStr ''master'')"
proof -
  have a: "truthy (branch addon_a)" and c: "\<not> truthy (branch addon_c)"
    by (simp_all add: addon_a_def addon_c_def)
  have miss: "cache_lookup 0 (latest_release_cache empty_repo) k = None" for k :: "pyval \<times> pyval"
    by (simp add: cache_lookup_def empty_repo_def)
  have rc: "urlopen_read example_env
      (''https://api.github.com/repos/'' @ format_value example_env (PStr ''carol'') @ ''/'' @
       format_value example_env (PStr ''plugin.c'') @ ''/releases/latest'') = Inr ''{tag_name: v1.0}''"
    by (simp add: example_env_def format_value_def)
  have jc: "json_loads example_env ''{tag_name: v1.0}'' =
      Inr (PDict [(PStr ''tag_name'', PStr ''v1.0'')])"
    by (simp add: example_env_def)
  have rd: "urlopen_read example_env
      (''https://api.github.com/repos/'' @ format_value example_env (PStr ''dave'') @ ''/'' @
       format_value example_env (PStr ''plugin.d'') @ ''/releases/latest'') = Inr ''{}''"
    by (simp add: example_env_def format_value_def)
  have jd: "json_loads example_env ''{}'' = Inr (PDict [])"
    by (simp add: example_env_def)
  have 1: "get_addon_branch example_env 0 addon_a empty_repo = (Inr (PStr ''main''), empty_repo)"
    using get_addon_branch_resolution[of addon_a example_env 0 empty_repo] a
    by (simp add: addon_a_def)
  have 2: "fst (get_addon_branch example_env 0 addon_c empty_repo) = Inr (PStr ''v1.0'') \<and>
      requests (snd (get_addon_branch example_env 0 addon_c empty_repo)) =
        [''https://api.github.com/repos/carol/plugin.c/releases/latest'']"
    using get_addon_branch_resolution[of addon_c example_env 0 empty_repo
        "PStr ''carol''" "PStr ''plugin.c''" _ "''{tag_name: v1.0}''"
        "[(PStr ''tag_name'', PStr ''v1.0'')]"] c miss rc jc
    by (simp add: addon_c_def dict_get_def format_value_def empty_repo_def)
  have 3: "fst (get_latest_release example_env 0 (PStr ''dave'') (PStr ''plugin.d'') empty_repo) =
      Inr (PStr ''master'')"
    using get_addon_branch_resolution[of addon_a example_env 0 empty_repo
        "PStr ''dave''" "PStr ''plugin.d''" _ "''{}''" "[]"] miss rd jd
    by (simp add: dict_get_def)
  from 1 2 3 show ?thesis by simp
qed

text \<open>
  C10. For an add-on whose branch field is the empty string (rather than absent),
  branch resolution treats the branch as unset: it is the latest-release lookup, and
  not the empty string handed back. Where no cache entry stands for the owner and
  repository, the lookup requests the latest-release URL.
\<close>

theorem get_addon_branch_empty_string:
  "get_addon_branch env now (a\<lparr>branch := PStr []\<rparr>) s =
     get_latest_release env now (username a) (repository a) s \<and>
   get_addon_branch env now (a\<lparr>branch := PStr []\<rparr>) s =
     get_addon_branch env now (a\<lparr>branch := PNone\<rparr>) s \<and>
   (cache_lookup now (latest_release_cache s) (username a, repository a) = None \<longrightarrow>
      requests (snd (get_addon_branch env now (a\<lparr>branch := PStr []\<rparr>) s)) =
        requests s @
          [''https://api.github.com/repos/'' @ format_value env (username a) @ ''/'' @
           format_value env (repository a) @ ''/releases/latest''])"
  by (simp add: get_addon_branch_def get_latest_release_def latest_release_body_def
      format_latest_release_url get_request_def split: sum.splits pyval.splits)

theorem get_addon_branch_empty_string_witness:
  "get_addon_branch example_env 0 addon_d empty_repo =
     (Inr (PStr ''master''),
      empty_repo\<lparr>requests := [''https://api.github.com/repos/dave/plugin.d/releases/latest''],
        latest_release_cache :=
          [((PStr ''dave'', PStr ''plugin.d''), (PStr ''master'', 3600))]\<rparr>) \<and>
   branch addon_d = PStr []"
proof -
  have d: "addon_d\<lparr>branch := PStr []\<rparr> = addon_d"
    by (simp add: addon_d_def)
  have "get_latest_release example_env 0 (PStr ''dave'') (PStr ''plugin.d'') empty_repo =
     (Inr (PStr ''master''),
      empty_repo\<lparr>requests := [''https://api.github.com/repos/dave/plugin.d/releases/latest''],
        latest_release_cache :=
          [((PStr ''dave'', PStr ''plugin.d''), (PStr ''master'', 3600))]\<rparr>)"
    by (simp add: get_latest_release_def latest_release_body_def format_latest_release_url
        get_request_def cache_lookup_def cache_store_def cache_ttl_def example_env_def
        empty_repo_def format_value_def dict_get_default_def dict_get_def)
  with get_addon_branch_empty_string[of example_env 0 addon_d empty_repo] d
  show ?thesis by (simp add: addon_d_def)
qed

section \<open>The claims about asset URLs\<close>

text \<open>
  C8. For every add-on id absent from the store and every asset name,
  \<^verbatim>\<open>get_asset_url\<close> returns \<^verbatim>\<open>None\<close>; it raises nothing, and the state is as before: no
  request was made, and no branch was resolved or cached.
\<close>

theorem get_asset_url_unknown:
  "od_get (addons s) (PStr addon_id) = None \<Longrightarrow>
   get_asset_url env now addon_id asset s = (Inr None, s)"
  by (simp add: get_asset_url_def)

theorem get_asset_url_unknown_witness:
  "get_asset_url example_env 0 ''plugin.z'' ''plugin.z-1.0.0.zip''
     (empty_repo\<lparr>addons := [(PStr ''plugin.b'', addon_b)]\<rparr>) =
     (Inr None, empty_repo\<lparr>addons := [(PStr ''plugin.b'', addon_b)]\<rparr>)"
proof -
  have "od_get (addons (empty_repo\<lparr>addons := [(PStr ''plugin.b'', addon_b)]\<rparr>))
          (PStr ''plugin.z'') = None"
    by (simp add: key_eq_def)
  from get_asset_url_unknown[OF this] show ?thesis .
qed

text \<open>
  C4. For every known add-on id and every asset name of the form
  \<^verbatim>\<open><addon_id>-<version>.zip\<close>, where the add-on has no \<^verbatim>\<open>zip\<close> override and its branch
  resolves: the name passes the test of \<^verbatim>\<open>get_asset_url\<close>, the version extracted is
  exactly the text between the separator and the extension, the key looked up among
  the overrides is the literal \<^verbatim>\<open>zip\<close>, the version is added to the formats, and the
  result is the archive template
  \<^verbatim>\<open>https://github.com/{username}/{repository}/archive/{branch}.zip\<close> formatted with
  them: the owner, the repository and the resolved branch stand in it (the template
  has no field for the version).
\<close>

theorem get_asset_url_versioned_archive:
  assumes "od_get (addons s) (PStr addon_id) = Some a"
    and "assets a = PDict kvs"
    and "dict_get kvs ''zip'' = None"
    and "get_addon_branch env now a s = (Inr b, s')"
  shows "is_versioned_archive addon_id (addon_id @ ''-'' @ version @ ''.zip'') \<and>
    archive_version addon_id (addon_id @ ''-'' @ version @ ''.zip'') = version \<and>
    asset_target formats a addon_id (addon_id @ ''-'' @ version @ ''.zip'') =
      Inr (formats @ [(''version'', PStr version)], ''zip'', GITHUB_ZIP_URL) \<and>
    asset_template env a ''zip'' GITHUB_ZIP_URL = Inr GITHUB_ZIP_URL \<and>
    get_asset_url env now addon_id (addon_id @ ''-'' @ version @ ''.zip'') s =
      (Inr (Some (''https://github.com/'' @ format_value env (username a) @ ''/'' @
                  format_value env (repository a) @ ''/archive/'' @ format_value env b @
                  ''.zip'')), s')"
proof -
  note name = versioned_archive_name[of addon_id version]
  have target: "asset_target fm a addon_id (addon_id @ ''-'' @ version @ ''.zip'') =
      Inr (fm @ [(''version'', PStr version)], ''zip'', GITHUB_ZIP_URL)" for fm
    using name by (simp add: asset_target_def)
  have template: "asset_template env a ''zip'' GITHUB_ZIP_URL = Inr GITHUB_ZIP_URL"
    using assms(2,3) by (simp add: asset_template_def)
  have "get_asset_url env now addon_id (addon_id @ ''-'' @ version @ ''.zip'') s =
      (Inr (Some (''https://github.com/'' @ format_value env (username a) @ ''/'' @
                  format_value env (repository a) @ ''/archive/'' @ format_value env b @
                  ''.zip'')), s')"
    by (simp only: get_asset_url_def assms(1) assms(4) target template option.case
        prod.case sum.case)
       (simp add: format_zip_url)
  with name target template show ?thesis by simp
qed

theorem get_asset_url_versioned_archive_witness:
  "get_asset_url example_env 0 ''plugin.a'' ''plugin.a-1.2.3.zip''
     (empty_repo\<lparr>addons := [(PStr ''plugin.a'', addon_a)]\<rparr>) =
     (Inr (Some ''https://github.com/alice/plugin.a/archive/main.zip''),
      empty_repo\<lparr>addons := [(PStr ''plugin.a'', addon_a)]\<rparr>) \<and>
   archive_version ''plugin.a'' ''plugin.a-1.2.3.zip'' = ''1.2.3''"
proof -
  let ?s = "empty_repo\<lparr>addons := [(PStr ''plugin.a'', addon_a)]\<rparr>"
  have known: "od_get (addons ?s) (PStr ''plugin.a'') = Some addon_a"
    by (simp add: key_eq_def)
  have dict: "assets addon_a = PDict []" and none: "dict_get [] ''zip'' = None"
    by (simp_all add: addon_a_def dict_get_def)
  have br: "get_addon_branch example_env 0 addon_a ?s = (Inr (PStr ''main''), ?s)"
    by (simp add: get_addon_branch_def addon_a_def)
  from get_asset_url_versioned_archive[OF known dict none br, of "''1.2.3''"]
  show ?thesis by (simp add: format_value_def addon_a_def)
qed

section \<open>Aggregation: the loop against the outcomes of the tasks\<close>

lemma map_of_filter_other:
  "map_of (filter (\<lambda>kv. fst kv \<noteq> k0) c) k = (if k = k0 then None else map_of c k)"
  by (induction c) auto

lemma cache_lookup_store_other:
  "k \<noteq> k0 \<Longrightarrow> cache_lookup now (cache_store now c k0 v) k = cache_lookup now c k"
  by (simp add: cache_lookup_def cache_store_def map_of_filter_other)

lemma latest_release_body_pure:
  "latest_release_body env u r (PStr ''master'') s =
     (release_lookup env u r,
      s\<lparr>requests := requests s @
           [''https://api.github.com/repos/'' @ format_value env u @ ''/'' @
            format_value env r @ ''/releases/latest'']\<rparr>)"
  by (simp add: latest_release_body_def release_lookup_def format_latest_release_url
      get_request_def split: sum.splits pyval.splits)

lemma get_latest_release_pure:
  "fst (get_latest_release env now u r s) = cached_release env now (latest_release_cache s) u r \<and>
   addons (snd (get_latest_release env now u r s)) = addons s \<and>
   log (snd (get_latest_release env now u r s)) = log s \<and>
   cache_agrees env now (latest_release_cache s)
     (latest_release_cache (snd (get_latest_release env now u r s)))"
proof (cases "cache_lookup now (latest_release_cache s) (u, r)")
  case (Some v)
  then show ?thesis
    by (simp add: get_latest_release_def cached_release_def cache_agrees_def)
next
  case None
  show ?thesis
  proof (cases "release_lookup env u r")
    case (Inl e)
    with None show ?thesis
      by (simp add: get_latest_release_def cached_release_def cache_agrees_def
          latest_release_body_pure)
  next
    case (Inr v)
    have "cached_release env now (cache_store now (latest_release_cache s) (u, r) v) u' r' =
          cached_release env now (latest_release_cache s) u' r'" for u' r'
    proof (cases "(u', r') = (u, r)")
      case True
      with None Inr show ?thesis
        by (simp add: cached_release_def cache_lookup_store)
    next
      case False
      then show ?thesis
        by (simp add: cached_release_def cache_lookup_store_other)
    qed
    with None Inr show ?thesis
      by (simp add: get_latest_release_def cached_release_def cache_agrees_def
          latest_release_body_pure)
  qed
qed

lemma get_addon_branch_pure:
  "fst (get_addon_branch env now a s) = resolved_branch env now (latest_release_cache s) a \<and>
   addons (snd (get_addon_branch env now a s)) = addons s \<and>
   log (snd (get_addon_branch env now a s)) = log s \<and>
   cache_agrees env now (latest_release_cache s)
     (latest_release_cache (snd (get_addon_branch env now a s)))"
  using get_latest_release_pure[of env now "username a" "repository a" s]
  by (simp add: get_addon_branch_def resolved_branch_def cache_agrees_def)

lemma addon_xml_url_pure:
  "fst (addon_xml_url env now a s) = document_url env now (latest_release_cache s) a \<and>
   addons (snd (addon_xml_url env now a s)) = addons s \<and>
   log (snd (addon_xml_url env now a s)) = log s \<and>
   cache_agrees env now (latest_release_cache s)
     (latest_release_cache (snd (addon_xml_url env now a s)))"
proof -
  obtain rb sb where b: "get_addon_branch env now a s = (rb, sb)"
    by (cases "get_addon_branch env now a s")
  from get_addon_branch_pure[of env now a s] b
  have rb: "rb = resolved_branch env now (latest_release_cache s) a"
    and sb: "addons sb = addons s" "log sb = log s"
      "cache_agrees env now (latest_release_cache s) (latest_release_cache sb)"
    by simp_all
  have refl: "cache_agrees env now c c" for c by (simp add: cache_agrees_def)
  show ?thesis
    unfolding addon_xml_url_def document_url_def b rb[symmetric]
    using sb refl
    by (auto split: pyval.splits sum.splits simp: rb)
qed

lemma fetch_document_pure:
  "fst (fetch_document env a url s) = (case document env url of Inl e \<Rightarrow> None | Inr x \<Rightarrow> Some x) \<and>
   addons (snd (fetch_document env a url s)) = addons s \<and>
   log (snd (fetch_document env a url s)) =
     log s @ (case document env url of Inl e \<Rightarrow> [LogError (id' a) e] | Inr x \<Rightarrow> []) \<and>
   latest_release_cache (snd (fetch_document env a url s)) = latest_release_cache s"
  by (simp add: fetch_document_def document_def get_request_def split: sum.splits)


lemma document_url_agrees:
  "cache_agrees env now c c' \<Longrightarrow> document_url env now c' a = document_url env now c a"
proof -
  assume "cache_agrees env now c c'"
  then have eq: "resolved_branch env now c' a = resolved_branch env now c a"
    by (simp add: resolved_branch_def cache_agrees_def)
  show ?thesis unfolding document_url_def eq by (rule refl)
qed

lemma cache_agrees_trans:
  "cache_agrees env now c c' \<Longrightarrow> cache_agrees env now c' c'' \<Longrightarrow> cache_agrees env now c c''"
  by (simp add: cache_agrees_def)

lemma get_addon_xml_pure:
  assumes agree: "cache_agrees env now c0 (latest_release_cache s)"
    and built: "document_url env now c0 a = Inr url"
  shows "fst (get_addon_xml env now a s) =
           Inr (case addon_document env now c0 a of Inl e \<Rightarrow> None | Inr x \<Rightarrow> Some x) \<and>
         addons (snd (get_addon_xml env now a s)) = addons s \<and>
         log (snd (get_addon_xml env now a s)) =
           log s @ (case addon_document env now c0 a of
                      Inl e \<Rightarrow> [LogError (id' a) e] | Inr x \<Rightarrow> []) \<and>
         cache_agrees env now c0 (latest_release_cache (snd (get_addon_xml env now a s)))"
proof -
  obtain ru s1 where u: "addon_xml_url env now a s = (ru, s1)"
    by (cases "addon_xml_url env now a s")
  from addon_xml_url_pure[of env now a s] u document_url_agrees[OF agree, of a] built
  have ru: "ru = Inr url"
    and s1: "addons s1 = addons s" "log s1 = log s"
      "cache_agrees env now (latest_release_cache s) (latest_release_cache s1)"
    by simp_all
  obtain rd s2 where d: "fetch_document env a url s1 = (rd, s2)"
    by (cases "fetch_document env a url s1")
  from fetch_document_pure[of env a url s1] d
  have rd: "rd = (case document env url of Inl e \<Rightarrow> None | Inr x \<Rightarrow> Some x)"
    and s2: "addons s2 = addons s1"
      "log s2 = log s1 @ (case document env url of Inl e \<Rightarrow> [LogError (id' a) e] | Inr x \<Rightarrow> [])"
      "latest_release_cache s2 = latest_release_cache s1"
    by simp_all
  have doc: "addon_document env now c0 a = document env url"
    by (simp add: addon_document_def built)
  from cache_agrees_trans[OF agree s1(3)] s2(3)
  have "cache_agrees env now c0 (latest_release_cache s2)" by simp
  then show ?thesis
    by (simp add: get_addon_xml_def u ru d rd s1 s2 doc)
qed

lemma fetch_sequential_pure:
  assumes "cache_agrees env now c0 (latest_release_cache s)"
    and "list_all (\<lambda>a. case document_url env now c0 a of Inl e \<Rightarrow> False | Inr url \<Rightarrow> True) as"
  shows "fst (fetch_sequential env now as s) = Inr (results_of env now c0 as) \<and>
         addons (snd (fetch_sequential env now as s)) = addons s \<and>
         log (snd (fetch_sequential env now as s)) = log s @ failures_of env now c0 as"
  using assms
proof (induction as arbitrary: s)
  case Nil
  then show ?case by (simp add: results_of_def failures_of_def)
next
  case (Cons a as)
  from Cons.prems(2) obtain url where url: "document_url env now c0 a = Inr url"
    and rest: "list_all (\<lambda>a. case document_url env now c0 a of Inl e \<Rightarrow> False | Inr url \<Rightarrow> True) as"
    by (auto split: sum.splits)
  obtain r s1 where step: "get_addon_xml env now a s = (r, s1)"
    by (cases "get_addon_xml env now a s")
  from get_addon_xml_pure[OF Cons.prems(1) url] step
  have r: "r = Inr (case addon_document env now c0 a of Inl e \<Rightarrow> None | Inr x \<Rightarrow> Some x)"
    and s1: "addons s1 = addons s"
      "log s1 = log s @ (case addon_document env now c0 a of
                      Inl e \<Rightarrow> [LogError (id' a) e] | Inr x \<Rightarrow> [])"
      "cache_agrees env now c0 (latest_release_cache s1)"
    by simp_all
  obtain rs s2 where tl: "fetch_sequential env now as s1 = (rs, s2)"
    by (cases "fetch_sequential env now as s1")
  from Cons.IH[OF s1(3) rest] tl
  have rs: "rs = Inr (results_of env now c0 as)"
    and s2: "addons s2 = addons s1" "log s2 = log s1 @ failures_of env now c0 as"
    by simp_all
  show ?case
    by (simp add: step r tl rs s1 s2 results_of_def failures_of_def)
qed

lemma fetch_pool_pure:
  assumes "cache_agrees env now c0 (latest_release_cache s)"
    and "list_all (\<lambda>a. case document_url env now c0 a of Inl e \<Rightarrow> False | Inr url \<Rightarrow> True) as"
  shows "fst (fetch_pool env now as s) = Inr (results_of env now c0 as) \<and>
         addons (snd (fetch_pool env now as s)) = addons s \<and>
         log (snd (fetch_pool env now as s)) = log s @ failures_of env now c0 as"
  using assms
proof (induction as arbitrary: s)
  case Nil
  then show ?case by (simp add: results_of_def failures_of_def)
next
  case (Cons a as)
  from Cons.prems(2) obtain url where url: "document_url env now c0 a = Inr url"
    and rest: "list_all (\<lambda>a. case document_url env now c0 a of Inl e \<Rightarrow> False | Inr url \<Rightarrow> True) as"
    by (auto split: sum.splits)
  obtain r s1 where step: "get_addon_xml env now a s = (r, s1)"
    by (cases "get_addon_xml env now a s")
  from get_addon_xml_pure[OF Cons.prems(1) url] step
  have r: "r = Inr (case addon_document env now c0 a of Inl e \<Rightarrow> None | Inr x \<Rightarrow> Some x)"
    and s1: "addons s1 = addons s"
      "log s1 = log s @ (case addon_document env now c0 a of
                      Inl e \<Rightarrow> [LogError (id' a) e] | Inr x \<Rightarrow> [])"
      "cache_agrees env now c0 (latest_release_cache s1)"
    by simp_all
  obtain rs s2 where tl: "fetch_pool env now as s1 = (rs, s2)"
    by (cases "fetch_pool env now as s1")
  from Cons.IH[OF s1(3) rest] tl
  have rs: "rs = Inr (results_of env now c0 as)"
    and s2: "addons s2 = addons s1" "log s2 = log s1 @ failures_of env now c0 as"
    by simp_all
  show ?case
    by (simp add: step r tl rs s1 s2 results_of_def failures_of_def)
qed

lemma append_results_children:
  "append_results (Element tag attrib txt children) rs =
     Element tag attrib txt (children @ concat (map (\<lambda>r. case r of None \<Rightarrow> [] | Some x \<Rightarrow> [x]) rs))"
proof (induction rs arbitrary: children)
  case Nil
  show ?case by simp
next
  case (Cons r rs)
  then show ?case by (cases r) simp_all
qed

lemma results_documents:
  "concat (map (\<lambda>r. case r of None \<Rightarrow> [] | Some x \<Rightarrow> [x]) (results_of env now c0 as)) =
   concat (map (\<lambda>a. case addon_document env now c0 a of Inl e \<Rightarrow> [] | Inr x \<Rightarrow> [x]) as)"
  by (induction as) (auto simp: results_of_def split: sum.splits)

lemma addons_root_pure:
  assumes "urls_built env now s"
  shows "fst (addons_root env now s) = Inr (Element ''addons'' [] [] (fetched_documents env now s)) \<and>
         addons (snd (addons_root env now s)) = addons s \<and>
         log (snd (addons_root env now s)) =
           log s @ map (\<lambda>(a, e). LogError (id' a) e) (failed_fetches env now s)"
proof -
  let ?c0 = "latest_release_cache s" and ?as = "map snd (addons s)"
  have agree: "cache_agrees env now ?c0 (latest_release_cache s)"
    by (simp add: cache_agrees_def)
  from assms have built:
    "list_all (\<lambda>a. case document_url env now ?c0 a of Inl e \<Rightarrow> False | Inr url \<Rightarrow> True) ?as"
    by (simp add: urls_built_def)
  have "failures_of env now c as =
      map (\<lambda>(a, e). LogError (id' a) e)
        (concat (map (\<lambda>a. case addon_document env now c a of
                        Inl e \<Rightarrow> [(a, e)] | Inr x \<Rightarrow> []) as))" for c as
    unfolding failures_of_def
    by (induction as) (auto split: sum.splits)
  then have fl: "failures_of env now ?c0 ?as =
      map (\<lambda>(a, e). LogError (id' a) e) (failed_fetches env now s)"
    by (simp add: failed_fetches_def)
  have docs: "concat (map (\<lambda>r. case r of None \<Rightarrow> [] | Some x \<Rightarrow> [x]) (results_of env now ?c0 ?as)) =
      fetched_documents env now s"
    by (simp add: results_documents fetched_documents_def)
  obtain r1 s1 where seq: "fetch_sequential env now ?as s = (r1, s1)"
    by (cases "fetch_sequential env now ?as s")
  obtain r2 s2 where pool: "fetch_pool env now ?as s = (r2, s2)"
    by (cases "fetch_pool env now ?as s")
  from fetch_sequential_pure[OF agree built] seq
  have 1: "r1 = Inr (results_of env now ?c0 ?as)" "addons s1 = addons s"
    "log s1 = log s @ failures_of env now ?c0 ?as" by simp_all
  from fetch_pool_pure[OF agree built] pool
  have 2: "r2 = Inr (results_of env now ?c0 ?as)" "addons s2 = addons s"
    "log s2 = log s @ failures_of env now ?c0 ?as" by simp_all
  show ?thesis
    by (simp add: addons_root_def Let_def seq pool 1 2 append_results_children docs fl)
qed

lemma count_documents:
  "length (fetched_documents env now s) + length (failed_fetches env now s) = length (addons s)"
proof -
  have "length (concat (map (\<lambda>a. case addon_document env now c a of
                        Inl e \<Rightarrow> [] | Inr x \<Rightarrow> [x]) as)) +
        length (concat (map (\<lambda>a. case addon_document env now c a of
                        Inl e \<Rightarrow> [(a, e)] | Inr x \<Rightarrow> []) as)) = length as" for c as
    by (induction as) (auto split: sum.splits)
  from this[of "latest_release_cache s" "map snd (addons s)"] show ?thesis
    by (simp add: fetched_documents_def failed_fetches_def)
qed

lemma fetched_documents_filter:
  "fetched_documents env now s =
     map (\<lambda>a. projr (addon_document env now (latest_release_cache s) a))
       (filter (\<lambda>a. \<not> isl (addon_document env now (latest_release_cache s) a))
          (map snd (addons s)))"
proof -
  have "concat (map (\<lambda>a. case addon_document env now c a of Inl e \<Rightarrow> [] | Inr x \<Rightarrow> [x]) as) =
        map (\<lambda>a. projr (addon_document env now c a))
          (filter (\<lambda>a. \<not> isl (addon_document env now c a)) as)" for c as
    by (induction as) (auto split: sum.splits)
  from this[of "latest_release_cache s" "map snd (addons s)"]
  show ?thesis unfolding fetched_documents_def .
qed

lemma failed_fetches_filter:
  "map fst (failed_fetches env now s) =
     filter (\<lambda>a. isl (addon_document env now (latest_release_cache s) a)) (map snd (addons s))"
proof -
  have "map fst (concat (map (\<lambda>a. case addon_document env now c a of
                                  Inl e \<Rightarrow> [(a, e)] | Inr x \<Rightarrow> []) as)) =
        filter (\<lambda>a. isl (addon_document env now c a)) as" for c as
    by (induction as) (auto split: sum.splits)
  from this[of "latest_release_cache s" "map snd (addons s)"]
  show ?thesis unfolding failed_fetches_def .
qed

text \<open>
  Where the isolation of failures holds. For every store whose document URLs can all
  be built, a fetch of a document that fails, by a failed request or a document that
  does not parse, is logged with the add-on's id and its cause, and that add-on is
  omitted; the aggregate does not fail, and the manifest is the serialised root whose
  children are the documents of the other add-ons, in the iteration order of the
  store. Both the sequential branch and the thread pool give this.
\<close>

lemma fetch_failures_isolated:
  assumes "urls_built env now s"
  shows "fst (addons_root env now s) =
           Inr (Element ''addons'' [] [] (fetched_documents env now s)) \<and>
         fst (addons_xml_body env now s) =
           Inr (xml_tostring env (Element ''addons'' [] [] (fetched_documents env now s))) \<and>
         (addons_xml_cache s = None \<longrightarrow>
            fst (get_addons_xml env now s) =
              Inr (xml_tostring env (Element ''addons'' [] [] (fetched_documents env now s)))) \<and>
         fetched_documents env now s =
           map (\<lambda>a. projr (addon_document env now (latest_release_cache s) a))
             (filter (\<lambda>a. \<not> isl (addon_document env now (latest_release_cache s) a))
                (map snd (addons s))) \<and>
         map fst (failed_fetches env now s) =
           filter (\<lambda>a. isl (addon_document env now (latest_release_cache s) a))
             (map snd (addons s)) \<and>
         log (snd (addons_root env now s)) =
           log s @ map (\<lambda>(a, e). LogError (id' a) e) (failed_fetches env now s) \<and>
         length (fetched_documents env now s) =
           length (addons s) - length (failed_fetches env now s)"
proof -
  obtain r s' where root: "addons_root env now s = (r, s')"
    by (cases "addons_root env now s")
  from addons_root_pure[OF assms] root
  have r: "r = Inr (Element ''addons'' [] [] (fetched_documents env now s))"
    and l: "log s' = log s @ map (\<lambda>(a, e). LogError (id' a) e) (failed_fetches env now s)"
    by simp_all
  have body: "fst (addons_xml_body env now s) =
      Inr (xml_tostring env (Element ''addons'' [] [] (fetched_documents env now s)))"
    by (simp add: addons_xml_body_def root r)
  have cached: "fst (get_addons_xml env now s) =
      Inr (xml_tostring env (Element ''addons'' [] [] (fetched_documents env now s)))"
    if "addons_xml_cache s = None"
    using that by (simp add: get_addons_xml_def addons_xml_body_def root r)
  from count_documents[of env now s]
  have n: "length (fetched_documents env now s) =
      length (addons s) - length (failed_fetches env now s)"
    by simp
  show ?thesis
    using r l body cached n fetched_documents_filter[of env now s]
      failed_fetches_filter[of env now s]
    by (simp add: root)
qed

text \<open>
  Three add-ons, two fetches that fail: the document of \<^verbatim>\<open>plugin.c\<close> (at the tag
  \<^verbatim>\<open>v1.0\<close> that its release lookup gave) and that of \<^verbatim>\<open>plugin.e\<close>. The manifest holds the
  one document of \<^verbatim>\<open>plugin.a\<close>.
\<close>

lemma fetch_failures_isolated_example:
  "urls_built example_env 0 repo_cae \<and>
   fst (addons_root example_env 0 repo_cae) =
     Inr (Element ''addons'' [] [] [Element ''addon'' [(''id'', ''plugin.a'')] [] []]) \<and>
   fst (get_addons_xml example_env 0 repo_cae) = Inr ''<addons/>'' \<and>
   log (snd (addons_root example_env 0 repo_cae)) =
     [LogError (PStr ''plugin.c'') IOError, LogError (PStr ''plugin.e'') IOError] \<and>
   length (addons repo_cae) = 3"
proof -
  have fmt: "py_format example_env (GITHUB_CONTENT_BASE_URL @ ''addon.xml'')
      [(''id'', i), (''username'', PStr u), (''repository'', PStr r), (''branch'', PStr b)] =
      Inr (''https://raw.githubusercontent.com/'' @ u @ ''/'' @ r @ ''/'' @ b @ ''/addon.xml'')"
    for i u r b
    by (simp add: py_format_def GITHUB_CONTENT_BASE_URL_def format_field_def prepend_def
        format_value_def)
  have join: "urljoin example_env GITHUB_CONTENT_BASE_URL (PStr ''addon.xml'') =
      Inr (GITHUB_CONTENT_BASE_URL @ ''addon.xml'')"
    by (simp add: urljoin_def example_env_def)
  have rel: "release_lookup example_env (PStr ''carol'') (PStr ''plugin.c'') = Inr (PStr ''v1.0'')"
    by (simp add: release_lookup_def example_env_def format_value_def dict_get_default_def
        dict_get_def)
  have uc: "document_url example_env 0 [] addon_c =
      Inr ''https://raw.githubusercontent.com/carol/plugin.c/v1.0/addon.xml''"
    by (simp add: document_url_def addon_c_def dict_get_default_def dict_get_def join
        resolved_branch_def cached_release_def cache_lookup_def rel fmt)
  have ua: "document_url example_env 0 [] addon_a =
      Inr ''https://raw.githubusercontent.com/alice/plugin.a/main/addon.xml''"
    by (simp add: document_url_def addon_a_def dict_get_default_def dict_get_def join
        resolved_branch_def fmt)
  have ue: "document_url example_env 0 [] addon_e =
      Inr ''https://raw.githubusercontent.com/erin/plugin.e/main/addon.xml''"
    by (simp add: document_url_def addon_e_def dict_get_default_def dict_get_def join
        resolved_branch_def fmt)
  have dc: "addon_document example_env 0 [] addon_c = Inl IOError"
    by (simp add: addon_document_def uc document_def) (simp add: example_env_def)
  have da: "addon_document example_env 0 [] addon_a =
      Inr (Element ''addon'' [(''id'', ''plugin.a'')] [] [])"
    by (simp add: addon_document_def ua document_def) (simp add: example_env_def)
  have de: "addon_document example_env 0 [] addon_e = Inl IOError"
    by (simp add: addon_document_def ue document_def) (simp add: example_env_def)
  have built: "urls_built example_env 0 repo_cae"
    by (simp add: urls_built_def repo_cae_def empty_repo_def uc ua ue)
  have docs: "fetched_documents example_env 0 repo_cae =
      [Element ''addon'' [(''id'', ''plugin.a'')] [] []]"
    by (simp add: fetched_documents_def repo_cae_def empty_repo_def dc da de)
  have fails: "failed_fetches example_env 0 repo_cae = [(addon_c, IOError), (addon_e, IOError)]"
    by (simp add: failed_fetches_def repo_cae_def empty_repo_def dc da de)
  have nocache: "addons_xml_cache repo_cae = None" "log repo_cae = []"
    by (simp_all add: repo_cae_def empty_repo_def)
  from fetch_failures_isolated[OF built] nocache
  show ?thesis
    using built
    by (simp add: docs fails)
       (simp add: example_env_def addon_c_def addon_e_def repo_cae_def empty_repo_def)
qed

text \<open>
  C1. The claim: during manifest aggregation (\<^verbatim>\<open>get_addons_xml\<close>), an add-on whose fetch
  fails, for any failure, is logged with its id and omitted; no single add-on's
  failure aborts the aggregate, and the manifest holds the fragments of the other
  add-ons in the order of the store. The code keeps this for the request and the parse
  of the document, which stand inside the \<^verbatim>\<open>try\<close> of \<^verbatim>\<open>_get_addon_xml\<close>: of \<^verbatim>\<open>plugin.c\<close>,
  \<^verbatim>\<open>plugin.a\<close> and \<^verbatim>\<open>plugin.e\<close>, two fetches fail and are logged, and the manifest holds
  the one document. It breaks it for the latest-release lookup of an add-on without
  branch, which runs one statement before that \<^verbatim>\<open>try\<close>: with \<^verbatim>\<open>plugin.a\<close>, whose document
  can be fetched, and \<^verbatim>\<open>plugin.b\<close>, whose release endpoint cannot be reached,
  \<^verbatim>\<open>get_addons_xml\<close> raises the error of the lookup, in the thread pool and in the
  sequential branch alike, where the claim gives a manifest of one fragment.
\<close>

theorem get_addons_xml_release_failure_aborts:
  "fst (get_addons_xml example_env 0 repo_ab) = Inl IOError \<and>
   fst (get_addons_xml example_env 0 (repo_ab\<lparr>max_threads := 1\<rparr>)) = Inl IOError \<and>
   addon_document example_env 0 [] addon_a =
     Inr (Element ''addon'' [(''id'', ''plugin.a'')] [] []) \<and>
   map fst (addons repo_ab) = [PStr ''plugin.a'', PStr ''plugin.b''] \<and>
   fst (get_addons_xml example_env 0 repo_cae) = Inr ''<addons/>'' \<and>
   fst (addons_root example_env 0 repo_cae) =
     Inr (Element ''addons'' [] [] [Element ''addon'' [(''id'', ''plugin.a'')] [] []]) \<and>
   log (snd (addons_root example_env 0 repo_cae)) =
     [LogError (PStr ''plugin.c'') IOError, LogError (PStr ''plugin.e'') IOError]"
proof -
  have fmt: "py_format example_env (GITHUB_CONTENT_BASE_URL @ ''addon.xml'')
      [(''id'', i), (''username'', PStr u), (''repository'', PStr r), (''branch'', PStr b)] =
      Inr (''https://raw.githubusercontent.com/'' @ u @ ''/'' @ r @ ''/'' @ b @ ''/addon.xml'')"
    for i u r b
    by (simp add: py_format_def GITHUB_CONTENT_BASE_URL_def format_field_def prepend_def
        format_value_def)
  have join: "urljoin example_env GITHUB_CONTENT_BASE_URL (PStr ''addon.xml'') =
      Inr (GITHUB_CONTENT_BASE_URL @ ''addon.xml'')"
    by (simp add: urljoin_def example_env_def)
  have a: "get_addon_xml example_env 0 addon_a s =
      (Inr (Some (Element ''addon'' [(''id'', ''plugin.a'')] [] [])),
       s\<lparr>requests := requests s @
            [''https://raw.githubusercontent.com/alice/plugin.a/main/addon.xml'']\<rparr>)" for s
    by (simp add: get_addon_xml_def addon_xml_url_def fetch_document_def get_request_def
        get_addon_branch_def addon_a_def dict_get_default_def dict_get_def join fmt)
       (simp add: example_env_def)
  have b: "get_addon_xml example_env 0 addon_b s =
      (Inl IOError,
       s\<lparr>requests := requests s @
            [''https://api.github.com/repos/bob/plugin.b/releases/latest'']\<rparr>)"
    if "latest_release_cache s = []" for s
    using that
    by (simp add: get_addon_xml_def addon_xml_url_def get_addon_branch_def addon_b_def
        dict_get_default_def dict_get_def join get_latest_release_def cache_lookup_def
        latest_release_body_def format_latest_release_url get_request_def format_value_def)
       (simp add: example_env_def)
  have pool: "fst (fetch_pool example_env 0 [addon_a, addon_b] s) = Inl IOError"
    if "latest_release_cache s = []" for s
    using that by (simp add: a b)
  have seq: "fst (fetch_sequential example_env 0 [addon_a, addon_b] s) = Inl IOError"
    if "latest_release_cache s = []" for s
    using that by (simp add: a b)
  have ab: "map snd (addons repo_ab) = [addon_a, addon_b]"
    "latest_release_cache repo_ab = []" "addons_xml_cache repo_ab = None"
    "max_threads repo_ab = 5" "length (addons repo_ab) = 2"
    by (simp_all add: repo_ab_def empty_repo_def)
  obtain rp sp where p: "fetch_pool example_env 0 [addon_a, addon_b] repo_ab = (rp, sp)"
    by (cases "fetch_pool example_env 0 [addon_a, addon_b] repo_ab")
  with pool[OF ab(2)] have rp: "rp = Inl IOError" by simp
  have 1: "fst (get_addons_xml example_env 0 repo_ab) = Inl IOError"
    by (simp add: get_addons_xml_def addons_xml_body_def addons_root_def ab p rp
        del: fetch_pool.simps fetch_sequential.simps)
  let ?s1 = "repo_ab\<lparr>max_threads := 1\<rparr>"
  obtain rq sq where q: "fetch_sequential example_env 0 [addon_a, addon_b] ?s1 = (rq, sq)"
    by (cases "fetch_sequential example_env 0 [addon_a, addon_b] ?s1")
  with seq[of ?s1] ab(2) have rq: "rq = Inl IOError" by simp
  have 2: "fst (get_addons_xml example_env 0 ?s1) = Inl IOError"
    by (simp add: get_addons_xml_def addons_xml_body_def addons_root_def ab q rq
        del: fetch_pool.simps fetch_sequential.simps)
  have 3: "addon_document example_env 0 [] addon_a =
      Inr (Element ''addon'' [(''id'', ''plugin.a'')] [] [])"
    by (simp add: addon_document_def document_url_def addon_a_def dict_get_default_def
        dict_get_def join resolved_branch_def fmt document_def)
       (simp add: example_env_def)
  from 1 2 3 fetch_failures_isolated_example show ?thesis by (simp add: repo_ab_def)
qed

end
